theory Spec2Isabelle
  imports Main "HOL-Library.Sublist" "HOL-Library.AList"
begin

section \<open>Python values\<close>

text \<open>
  The job records of \<^verbatim>\<open>job_alert.py\<close> are plain Python dicts. Those built by the HTML
  parser hold strings; those of extract mode are whatever JSON the scraping service
  answered. A value of the model is therefore a JSON value as \<^verbatim>\<open>json.load\<close> builds it:
  \<^verbatim>\<open>None\<close>, a bool, an int, a str, a list or a dict with string keys (kept as an
  association list in insertion order, the first binding of a key being the one that
  counts). JSON numbers with a fraction are left out. A character of a model string
  stands for one code point of the Python str, so \<open>length\<close> is Python's \<^verbatim>\<open>len\<close>.
\<close>

datatype pyval =
    PNone
  | PBool bool
  | PInt int
  | PStr string
  | PList "pyval list"
  | PDict "(string \<times> pyval) list"

text \<open>The exceptions that the code raises or that its operations on values raise.\<close>

datatype exn = ValueError | AttributeError | TypeError | KeyError

text \<open>Truth value of an object, as tested by \<^verbatim>\<open>if x\<close>, \<^verbatim>\<open>not x\<close> and \<^verbatim>\<open>x or y\<close>.\<close>

fun truthy :: "pyval \<Rightarrow> bool" where
  "truthy PNone = False"
| "truthy (PBool b) = b"
| "truthy (PInt n) = (n \<noteq> 0)"
| "truthy (PStr s) = (s \<noteq> [])"
| "truthy (PList xs) = (xs \<noteq> [])"
| "truthy (PDict kvs) = (kvs \<noteq> [])"

text \<open>\<^verbatim>\<open>d.get(k, default)\<close> on a dict.\<close>

definition dict_get :: "(string \<times> pyval) list \<Rightarrow> string \<Rightarrow> pyval \<Rightarrow> pyval" where
  "dict_get kvs k dflt = (case map_of kvs k of None \<Rightarrow> dflt | Some v \<Rightarrow> v)"

text \<open>\<^verbatim>\<open>obj.get(k, default)\<close> on any value: only a dict has the method.\<close>

definition py_get :: "pyval \<Rightarrow> string \<Rightarrow> pyval \<Rightarrow> exn + pyval" where
  "py_get obj k dflt =
     (case obj of PDict kvs \<Rightarrow> Inr (dict_get kvs k dflt) | _ \<Rightarrow> Inl AttributeError)"

text \<open>
  \<^verbatim>\<open>k in obj\<close> for a string \<open>k\<close>: key membership in a dict, element membership in a
  list, substring test on a str, TypeError on a value that is not a container.
\<close>

definition py_in :: "string \<Rightarrow> pyval \<Rightarrow> exn + bool" where
  "py_in k obj =
     (case obj of
        PDict kvs \<Rightarrow> Inr (map_of kvs k \<noteq> None)
      | PList xs \<Rightarrow> Inr (PStr k \<in> set xs)
      | PStr s \<Rightarrow> Inr (sublist k s)
      | _ \<Rightarrow> Inl TypeError)"

text \<open>
  \<^verbatim>\<open>obj[k]\<close> for a string \<open>k\<close>: KeyError on a dict without the key; a list and a str
  take integer indices only.
\<close>

definition py_getitem :: "pyval \<Rightarrow> string \<Rightarrow> exn + pyval" where
  "py_getitem obj k =
     (case obj of
        PDict kvs \<Rightarrow> (case map_of kvs k of None \<Rightarrow> Inl KeyError | Some v \<Rightarrow> Inr v)
      | _ \<Rightarrow> Inl TypeError)"

text \<open>
  \<^verbatim>\<open>for x in obj\<close>: the elements of a list, the keys of a dict, the characters of a
  str; TypeError otherwise.
\<close>

definition py_iter :: "pyval \<Rightarrow> exn + pyval list" where
  "py_iter obj =
     (case obj of
        PList xs \<Rightarrow> Inr xs
      | PDict kvs \<Rightarrow> Inr (map (\<lambda>kv. PStr (fst kv)) kvs)
      | PStr s \<Rightarrow> Inr (map (\<lambda>c. PStr [c]) s)
      | _ \<Rightarrow> Inl TypeError)"

subsection \<open>What the interpreter provides\<close>

text \<open>
  The built-in \<^verbatim>\<open>hash\<close> and the text of a value inside an f-string belong to the
  interpreter, not to the program. They are parameters of the model: \<open>py_hash\<close> is
  \<^verbatim>\<open>hash\<close> of the running process on hashable values (CPython salts the hash of a str
  with a per-process random value unless PYTHONHASHSEED is fixed), \<open>py_str\<close> is
  \<^verbatim>\<open>str\<close> on values other than a str.
\<close>

record runtime =
  py_hash :: "pyval \<Rightarrow> int"
  py_str :: "pyval \<Rightarrow> string"

text \<open>\<^verbatim>\<open>hash(v)\<close>: lists and dicts are unhashable.\<close>

definition hash_of :: "runtime \<Rightarrow> pyval \<Rightarrow> exn + int" where
  "hash_of rt v =
     (case v of PList _ \<Rightarrow> Inl TypeError | PDict _ \<Rightarrow> Inl TypeError | _ \<Rightarrow> Inr (py_hash rt v))"

text \<open>The text of \<^verbatim>\<open>{v}\<close> in an f-string: a str is inserted as it is.\<close>

definition format_val :: "runtime \<Rightarrow> pyval \<Rightarrow> string" where
  "format_val rt v = (case v of PStr s \<Rightarrow> s | _ \<Rightarrow> py_str rt v)"

text \<open>\<^verbatim>\<open>str(n)\<close> of an int: its decimal digits, with a sign when negative.\<close>

definition digit_char :: "nat \<Rightarrow> char" where
  "digit_char d = ''0123456789'' ! d"

fun str_nat :: "nat \<Rightarrow> string" where
  "str_nat n = (if n < 10 then [digit_char n] else str_nat (n div 10) @ [digit_char (n mod 10)])"

declare str_nat.simps [simp del]

definition str_int :: "int \<Rightarrow> string" where
  "str_int i = (if i < 0 then CHR ''-'' # str_nat (nat (- i)) else str_nat (nat i))"

section \<open>Job identifiers\<close>

text \<open>
  \<^verbatim>\<open>get_job_id\<close> (lines 326-331):
  \<^verbatim>\<open>
    if 'link' in job and job['link']:
        return str(hash(job['link']) % (10 ** 10))
    return str(hash(f"{job.get('title', '')}_{job.get('company', '')}") % (10 ** 10))
  \<close>
  Python's \<^verbatim>\<open>%\<close> with a positive modulus is \<open>mod\<close> on \<open>int\<close>.
\<close>

definition title_company_id :: "runtime \<Rightarrow> pyval \<Rightarrow> exn + string" where
  "title_company_id rt job =
     (case py_get job ''title'' (PStr []) of
        Inl e \<Rightarrow> Inl e
      | Inr t \<Rightarrow>
          (case py_get job ''company'' (PStr []) of
             Inl e \<Rightarrow> Inl e
           | Inr c \<Rightarrow>
               Inr (str_int (py_hash rt (PStr (format_val rt t @ ''_'' @ format_val rt c))
                              mod 10 ^ 10))))"

definition get_job_id :: "runtime \<Rightarrow> pyval \<Rightarrow> exn + string" where
  "get_job_id rt job =
     (case py_in ''link'' job of
        Inl e \<Rightarrow> Inl e
      | Inr has_link \<Rightarrow>
          if has_link then
            (case py_getitem job ''link'' of
               Inl e \<Rightarrow> Inl e
             | Inr link \<Rightarrow>
                 if truthy link then
                   (case hash_of rt link of
                      Inl e \<Rightarrow> Inl e
                    | Inr h \<Rightarrow> Inr (str_int (h mod 10 ^ 10)))
                 else title_company_id rt job)
          else title_company_id rt job)"

section \<open>Deduplication\<close>

text \<open>
  The loop of \<^verbatim>\<open>check_for_new_jobs\<close> (lines 434-439), with the instance's
  \<^verbatim>\<open>seen_job_ids\<close> passed in and returned:
  \<^verbatim>\<open>
    new_jobs = []
    for job in jobs:
        job_id = self.get_job_id(job)
        if job_id not in self.seen_job_ids:
            new_jobs.append(job)
            self.seen_job_ids.add(job_id)
  \<close>
  When \<^verbatim>\<open>get_job_id\<close> raises, the loop is left with the set as it is then.
\<close>

fun new_jobs_loop ::
  "runtime \<Rightarrow> pyval list \<Rightarrow> pyval set \<Rightarrow> pyval list \<Rightarrow> (exn + pyval list) \<times> pyval set" where
  "new_jobs_loop rt [] seen new_jobs = (Inr new_jobs, seen)"
| "new_jobs_loop rt (job # jobs) seen new_jobs =
     (case get_job_id rt job of
        Inl e \<Rightarrow> (Inl e, seen)
      | Inr job_id \<Rightarrow>
          if PStr job_id \<notin> seen
          then new_jobs_loop rt jobs (insert (PStr job_id) seen) (new_jobs @ [job])
          else new_jobs_loop rt jobs seen new_jobs)"

section \<open>Configuration and the outside world\<close>

text \<open>
  The module-level settings read from the environment with \<^verbatim>\<open>os.getenv\<close>, which
  gives \<^verbatim>\<open>None\<close> for a variable that is not set.
\<close>

record config =
  FIRECRAWL_API_KEY :: "string option"
  RESEND_API_KEY :: "string option"
  EMAIL_TO :: "string option"
  JOB_BOARD_URL :: "string option"

text \<open>\<^verbatim>\<open>if not KEY\<close> holds for a key that is unset or empty.\<close>

definition key_set :: "string option \<Rightarrow> bool" where
  "key_set k = (case k of None \<Rightarrow> False | Some s \<Rightarrow> s \<noteq> [])"

definition url_val :: "config \<Rightarrow> pyval" where
  "url_val cfg = (case JOB_BOARD_URL cfg of None \<Rightarrow> PNone | Some u \<Rightarrow> PStr u)"

text \<open>
  What one \<^verbatim>\<open>requests.post\<close> gives: a \<^verbatim>\<open>RequestException\<close> raised by the call itself
  (connection error, timeout), or a response with its status code and its body as
  \<^verbatim>\<open>response.json()\<close> reads it, \<open>None\<close> for a body that is not JSON. In that case
  \<^verbatim>\<open>response.json()\<close> raises \<^verbatim>\<open>requests.exceptions.JSONDecodeError\<close>, which is a
  \<^verbatim>\<open>RequestException\<close> (requests 2.27 and later). Headers and timeouts are not part of
  the model.
\<close>

datatype http_result = Network_error | Response int "pyval option"

text \<open>
  An anchor of the page as the parser reads it through BeautifulSoup:
  \<^verbatim>\<open>link.get_text(strip=True)\<close>, \<^verbatim>\<open>link.get('href', '')\<close>, and for
  \<^verbatim>\<open>link.find_parent()\<close>, when there is one, the stripped text of the first element
  under it whose class matches the company pattern and of the first whose class matches
  the location pattern, when there is one.
\<close>

record parent_tag =
  company_elem :: "string option"
  location_elem :: "string option"

record anchor =
  get_text :: string
  href :: string
  find_parent :: "parent_tag option"

text \<open>
  The collaborators of one pipeline run. \<open>firecrawl\<close> answers a POST of a payload to an
  endpoint of the scraping service, \<open>resend\<close> answers the POST of the email built from
  the given records. \<open>find_job_links\<close> is
  \<^verbatim>\<open>BeautifulSoup(html, 'html.parser').find(id='offers-list').find_all('a', href=...)\<close>:
  the anchors of the container in document order, or \<open>None\<close> when one of these calls
  raises (the container is missing, the content is not markup).
\<close>

record env =
  firecrawl :: "string \<Rightarrow> pyval \<Rightarrow> http_result"
  find_job_links :: "pyval \<Rightarrow> anchor list option"
  resend :: "pyval list \<Rightarrow> http_result"

text \<open>The effects of a run that the properties speak about, in the order they happen.\<close>

datatype event =
    Scrape_post string pyval
  | Email_post "pyval list"
  | Db_write "pyval set"

section \<open>Parser\<close>

text \<open>The dict built at lines 206-211.\<close>

definition make_job :: "string \<Rightarrow> string \<Rightarrow> string \<Rightarrow> string \<Rightarrow> pyval" where
  "make_job title company location link =
     PDict [(''title'', PStr title), (''company'', PStr company),
            (''location'', PStr location), (''link'', PStr link)]"

text \<open>Lines 192-197 and 200-204: the defaults stay unless the element is found.\<close>

definition company_of :: "anchor \<Rightarrow> string" where
  "company_of link =
     (case find_parent link of
        None \<Rightarrow> ''Unknown''
      | Some parent \<Rightarrow> (case company_elem parent of None \<Rightarrow> ''Unknown'' | Some t \<Rightarrow> t))"

definition location_of :: "anchor \<Rightarrow> string" where
  "location_of link =
     (case find_parent link of
        None \<Rightarrow> ''Location not specified''
      | Some parent \<Rightarrow>
          (case location_elem parent of None \<Rightarrow> ''Location not specified'' | Some t \<Rightarrow> t))"

text \<open>
  The loop over \<^verbatim>\<open>job_links\<close> (lines 175-214), with \<^verbatim>\<open>seen_titles\<close> and \<^verbatim>\<open>jobs\<close> as
  accumulators:
  \<^verbatim>\<open>
    if not title or len(title) < 5 or title in seen_titles:
        continue
    if href.startswith('/'):
        href = f"https://it.pracuj.pl{href}"
    elif not href.startswith('http'):
        continue
    ...
    jobs.append(job)
    seen_titles.add(title)
  \<close>
\<close>

fun parse_links :: "anchor list \<Rightarrow> string set \<Rightarrow> pyval list \<Rightarrow> pyval list" where
  "parse_links [] seen_titles jobs = jobs"
| "parse_links (link # job_links) seen_titles jobs =
     (let title = get_text link; h = href link in
      if title = [] \<or> length title < 5 \<or> title \<in> seen_titles
      then parse_links job_links seen_titles jobs
      else if prefix ''/'' h
      then parse_links job_links (insert title seen_titles)
             (jobs @ [make_job title (company_of link) (location_of link)
                        (''https://it.pracuj.pl'' @ h)])
      else if \<not> prefix ''http'' h
      then parse_links job_links seen_titles jobs
      else parse_links job_links (insert title seen_titles)
             (jobs @ [make_job title (company_of link) (location_of link) h]))"

text \<open>
  \<^verbatim>\<open>parse_jobs_from_html\<close> (lines 150-219). Nothing inside the loop raises, so the
  \<^verbatim>\<open>except Exception\<close> is reached only before the first record, with \<^verbatim>\<open>jobs\<close> empty.
\<close>

definition parse_jobs_from_html :: "(pyval \<Rightarrow> anchor list option) \<Rightarrow> pyval \<Rightarrow> pyval list" where
  "parse_jobs_from_html find_links html_content =
     (if \<not> truthy html_content then []
      else (case find_links html_content of
              None \<Rightarrow> []
            | Some job_links \<Rightarrow> parse_links job_links {} []))"

section \<open>Fetcher\<close>

text \<open>
  What one pass through the body of the inner loop does: go on with the next
  combination (\<^verbatim>\<open>continue\<close>, a caught \<^verbatim>\<open>RequestException\<close>, or the end of the body),
  return from the function, or raise an exception that the function does not catch.
\<close>

datatype flow = Next | Return pyval | Raise exn

text \<open>
  The two nested loops of both fetch functions (lines 102-103 and 275-276), with the
  calls made so far as a log:
  \<^verbatim>\<open>
    for endpoint in endpoints:
        for payload in payloads:
            try:
                response = requests.post(endpoint, json=payload, ...)
  \<close>
\<close>

fun payload_loop ::
  "(http_result \<Rightarrow> flow) \<Rightarrow> (string \<Rightarrow> pyval \<Rightarrow> http_result) \<Rightarrow> string \<Rightarrow> pyval list
   \<Rightarrow> flow \<times> (string \<times> pyval) list" where
  "payload_loop body post endpoint [] = (Next, [])"
| "payload_loop body post endpoint (payload # payloads) =
     (case body (post endpoint payload) of
        Next \<Rightarrow>
          (case payload_loop body post endpoint payloads of
             (r, calls) \<Rightarrow> (r, (endpoint, payload) # calls))
      | r \<Rightarrow> (r, [(endpoint, payload)]))"

fun endpoint_loop ::
  "(http_result \<Rightarrow> flow) \<Rightarrow> (string \<Rightarrow> pyval \<Rightarrow> http_result) \<Rightarrow> string list \<Rightarrow> pyval list
   \<Rightarrow> flow \<times> (string \<times> pyval) list" where
  "endpoint_loop body post [] payloads = (Next, [])"
| "endpoint_loop body post (endpoint # endpoints) payloads =
     (case payload_loop body post endpoint payloads of
        (Next, calls) \<Rightarrow>
          (case endpoint_loop body post endpoints payloads of
             (r, calls') \<Rightarrow> (r, calls @ calls'))
      | (r, calls) \<Rightarrow> (r, calls))"

subsection \<open>Extract mode\<close>

definition extract_endpoints :: "string list" where
  "extract_endpoints =
     [''https://api.firecrawl.dev/v2/extract'', ''https://api.firecrawl.dev/v1/extract'']"

definition schema :: pyval where
  "schema =
     PDict [(''type'', PStr ''object''),
            (''properties'',
             PDict [(''jobs'',
                     PDict [(''type'', PStr ''array''),
                            (''items'',
                             PDict [(''type'', PStr ''object''),
                                    (''properties'',
                                     PDict [(''title'', PDict [(''type'', PStr ''string'')]),
                                            (''company'', PDict [(''type'', PStr ''string'')]),
                                            (''location'', PDict [(''type'', PStr ''string'')]),
                                            (''link'', PDict [(''type'', PStr ''string'')]),
                                            (''description'',
                                             PDict [(''type'', PStr ''string'')])])])])])]"

definition extract_payloads :: "config \<Rightarrow> pyval list" where
  "extract_payloads cfg =
     [PDict [(''url'', url_val cfg),
             (''extractorOptions'',
              PDict [(''mode'', PStr ''llm-extract''), (''schema'', schema)])],
      PDict [(''urls'', PList [url_val cfg]),
             (''extractorOptions'',
              PDict [(''mode'', PStr ''llm-extract''), (''schema'', schema)])]]"

text \<open>
  Lines 311-314, for one element of \<^verbatim>\<open>jobs\<close>:
  \<^verbatim>\<open>
    if 'id' not in job:
        job_id = f"{job.get('title', '')}_{job.get('company', '')}_{job.get('link', '')}"
        job['id'] = hash(job_id) % (10 ** 10)
  \<close>
  The assignment is reached only for a dict without the key, where it adds the key at
  the end.
\<close>

definition add_id :: "runtime \<Rightarrow> pyval \<Rightarrow> exn + pyval" where
  "add_id rt job =
     (case py_in ''id'' job of
        Inl e \<Rightarrow> Inl e
      | Inr has_id \<Rightarrow>
          if has_id then Inr job
          else
            (case job of
               PDict kvs \<Rightarrow>
                 Inr (PDict (AList.update ''id''
                       (PInt (py_hash rt
                          (PStr (format_val rt (dict_get kvs ''title'' (PStr []))
                                 @ ''_'' @ format_val rt (dict_get kvs ''company'' (PStr []))
                                 @ ''_'' @ format_val rt (dict_get kvs ''link'' (PStr []))))
                          mod 10 ^ 10))
                       kvs))
             | _ \<Rightarrow> Inl AttributeError))"

fun add_ids :: "runtime \<Rightarrow> pyval list \<Rightarrow> exn + pyval list" where
  "add_ids rt [] = Inr []"
| "add_ids rt (job # jobs) =
     (case add_id rt job of
        Inl e \<Rightarrow> Inl e
      | Inr job' \<Rightarrow>
          (case add_ids rt jobs of Inl e \<Rightarrow> Inl e | Inr jobs' \<Rightarrow> Inr (job' # jobs')))"

text \<open>
  The whole \<^verbatim>\<open>for job in jobs\<close>: the dicts of a list are updated in place; the keys of
  a dict and the characters of a str are strings, which the body either skips or
  fails on, so such a \<^verbatim>\<open>jobs\<close> is left as it is.
\<close>

definition assign_ids :: "runtime \<Rightarrow> pyval \<Rightarrow> exn + pyval" where
  "assign_ids rt jobs =
     (case jobs of
        PList js \<Rightarrow> (case add_ids rt js of Inl e \<Rightarrow> Inl e | Inr js' \<Rightarrow> Inr (PList js'))
      | _ \<Rightarrow>
          (case py_iter jobs of
             Inl e \<Rightarrow> Inl e
           | Inr items \<Rightarrow> (case add_ids rt items of Inl e \<Rightarrow> Inl e | Inr _ \<Rightarrow> Inr jobs)))"

text \<open>Lines 302-306: \<^verbatim>\<open>data.get('data', data)\<close>, then the first element of an array.\<close>

definition extracted_data :: "(string \<times> pyval) list \<Rightarrow> pyval" where
  "extracted_data kvs =
     (case dict_get kvs ''data'' (PDict kvs) of
        PList xs \<Rightarrow> (case xs of [] \<Rightarrow> PDict [] | x # _ \<Rightarrow> x)
      | d \<Rightarrow> d)"

text \<open>The body of the inner loop of extract mode (lines 277-322), given the answer.\<close>

definition extract_attempt :: "runtime \<Rightarrow> http_result \<Rightarrow> flow" where
  "extract_attempt rt r =
     (case r of
        Network_error \<Rightarrow> Next
      | Response status_code body \<Rightarrow>
          if status_code \<noteq> 200 then Next
          else
            (case body of
               None \<Rightarrow> Next
             | Some data \<Rightarrow>
                 (case data of
                    PDict kvs \<Rightarrow>
                      if \<not> truthy (dict_get kvs ''success'' (PBool True)) then Next
                      else
                        (case py_get (extracted_data kvs) ''jobs'' (PList []) of
                           Inl e \<Rightarrow> Raise e
                         | Inr jobs \<Rightarrow>
                             (case assign_ids rt jobs of
                                Inl e \<Rightarrow> Raise e
                              | Inr jobs' \<Rightarrow> if truthy jobs' then Return jobs' else Next))
                  | _ \<Rightarrow> Next)))"

text \<open>
  \<^verbatim>\<open>scrape_jobs_with_firecrawl_extract\<close> (lines 221-324): the result or the exception,
  and the calls made.
\<close>

definition scrape_jobs_with_firecrawl_extract ::
  "config \<Rightarrow> runtime \<Rightarrow> (string \<Rightarrow> pyval \<Rightarrow> http_result) \<Rightarrow> (exn + pyval) \<times> (string \<times> pyval) list" where
  "scrape_jobs_with_firecrawl_extract cfg rt post =
     (if \<not> key_set (FIRECRAWL_API_KEY cfg) then (Inl ValueError, [])
      else
        (case endpoint_loop (extract_attempt rt) post extract_endpoints (extract_payloads cfg) of
           (Next, calls) \<Rightarrow> (Inr (PList []), calls)
         | (Return jobs, calls) \<Rightarrow> (Inr jobs, calls)
         | (Raise e, calls) \<Rightarrow> (Inl e, calls)))"

subsection \<open>Scrape mode\<close>

definition scrape_endpoints :: "string list" where
  "scrape_endpoints =
     [''https://api.firecrawl.dev/v2/scrape'', ''https://api.firecrawl.dev/v1/scrape'']"

definition scrape_payloads :: "config \<Rightarrow> pyval list" where
  "scrape_payloads cfg =
     [PDict [(''url'', url_val cfg),
             (''formats'', PList [PStr ''html'', PStr ''markdown'']),
             (''selectors'', PList [PStr ''#offers-list''])],
      PDict [(''url'', url_val cfg),
             (''formats'', PList [PStr ''html'', PStr ''markdown''])],
      PDict [(''url'', url_val cfg),
             (''pageOptions'', PDict [(''onlyMainContent'', PBool False)])]]"

text \<open>
  Lines 129-134: \<^verbatim>\<open>x.get('html', '') or x.get('markdown', '') or x.get('content', '')\<close>
  on \<^verbatim>\<open>x = data.get('data', data)\<close>.
\<close>

definition content_of :: "pyval \<Rightarrow> exn + pyval" where
  "content_of content_data =
     (case content_data of
        PDict kvs \<Rightarrow>
          Inr (if truthy (dict_get kvs ''html'' (PStr [])) then dict_get kvs ''html'' (PStr [])
               else if truthy (dict_get kvs ''markdown'' (PStr []))
               then dict_get kvs ''markdown'' (PStr [])
               else dict_get kvs ''content'' (PStr []))
      | _ \<Rightarrow> Inl AttributeError)"

text \<open>The body of the inner loop of scrape mode (lines 104-146), given the answer.\<close>

definition scrape_attempt ::
  "runtime \<Rightarrow> (pyval \<Rightarrow> anchor list option) \<Rightarrow> http_result \<Rightarrow> flow" where
  "scrape_attempt rt find_links r =
     (case r of
        Network_error \<Rightarrow> Next
      | Response status_code body \<Rightarrow>
          if status_code \<noteq> 200 then Next
          else
            (case body of
               None \<Rightarrow> Next
             | Some data \<Rightarrow>
                 (case (case data of
                          PDict kvs \<Rightarrow>
                            if \<not> truthy (dict_get kvs ''success'' (PBool True)) then Inr None
                            else
                              (case content_of (dict_get kvs ''data'' data) of
                                 Inl e \<Rightarrow> Inl e
                               | Inr c \<Rightarrow> Inr (Some c))
                        | _ \<Rightarrow> Inr (Some (PStr (format_val rt data)))) of
                    Inl e \<Rightarrow> Raise e
                  | Inr None \<Rightarrow> Next
                  | Inr (Some html_content) \<Rightarrow>
                      if truthy html_content then
                        (let jobs = parse_jobs_from_html find_links html_content in
                         if jobs \<noteq> [] then Return (PList jobs) else Next)
                      else Next)))"

text \<open>\<^verbatim>\<open>scrape_jobs_with_firecrawl\<close> (lines 66-148).\<close>

definition scrape_jobs_with_firecrawl ::
  "config \<Rightarrow> runtime \<Rightarrow> (pyval \<Rightarrow> anchor list option) \<Rightarrow> (string \<Rightarrow> pyval \<Rightarrow> http_result)
   \<Rightarrow> (exn + pyval) \<times> (string \<times> pyval) list" where
  "scrape_jobs_with_firecrawl cfg rt find_links post =
     (if \<not> key_set (FIRECRAWL_API_KEY cfg) then (Inl ValueError, [])
      else
        (case endpoint_loop (scrape_attempt rt find_links) post scrape_endpoints
                (scrape_payloads cfg) of
           (Next, calls) \<Rightarrow> (Inr (PList []), calls)
         | (Return jobs, calls) \<Rightarrow> (Inr jobs, calls)
         | (Raise e, calls) \<Rightarrow> (Inl e, calls)))"

text \<open>
  The first step of \<^verbatim>\<open>check_for_new_jobs\<close> (lines 423-427): extract mode, then scrape
  mode when it gave nothing.
\<close>

definition fetch_jobs :: "config \<Rightarrow> runtime \<Rightarrow> env \<Rightarrow> (exn + pyval) \<times> (string \<times> pyval) list" where
  "fetch_jobs cfg rt w =
     (case scrape_jobs_with_firecrawl_extract cfg rt (firecrawl w) of
        (Inl e, calls) \<Rightarrow> (Inl e, calls)
      | (Inr jobs, calls) \<Rightarrow>
          if \<not> truthy jobs then
            (case scrape_jobs_with_firecrawl cfg rt (find_job_links w) (firecrawl w) of
               (r, calls') \<Rightarrow> (r, calls @ calls'))
          else (Inr jobs, calls))"

section \<open>Notifier\<close>

definition is_dict :: "pyval \<Rightarrow> bool" where
  "is_dict v = (case v of PDict _ \<Rightarrow> True | _ \<Rightarrow> False)"

text \<open>
  \<^verbatim>\<open>send_email\<close> (lines 333-417). The text of the email is not modelled: building it
  calls \<^verbatim>\<open>job.get\<close> on every record, which needs dicts, and the POST is the event
  \<open>Email_post jobs\<close>. \<^verbatim>\<open>raise_for_status\<close> raises for a status from 400 to 599; that and
  a body that is not JSON are \<^verbatim>\<open>RequestException\<close>s, caught at line 414.
  \<^verbatim>\<open>result.get('id')\<close> needs a dict.
\<close>

definition send_email ::
  "config \<Rightarrow> (pyval list \<Rightarrow> http_result) \<Rightarrow> pyval list \<Rightarrow> (exn + unit) \<times> event list" where
  "send_email cfg post jobs =
     (if \<not> key_set (RESEND_API_KEY cfg) then (Inl ValueError, [])
      else if jobs = [] then (Inr (), [])
      else if \<not> list_all is_dict jobs then (Inl AttributeError, [])
      else
        (case post jobs of
           Network_error \<Rightarrow> (Inr (), [Email_post jobs])
         | Response status_code body \<Rightarrow>
             if 400 \<le> status_code \<and> status_code < 600 then (Inr (), [Email_post jobs])
             else
               (case body of
                  None \<Rightarrow> (Inr (), [Email_post jobs])
                | Some result \<Rightarrow>
                    if is_dict result then (Inr (), [Email_post jobs])
                    else (Inl AttributeError, [Email_post jobs]))))"

section \<open>Identifier store\<close>






section \<open>One pipeline run\<close>

text \<open>How a run of \<^verbatim>\<open>check_for_new_jobs\<close> ends.\<close>

datatype cycle_outcome =
    No_jobs
  | No_new_jobs
  | Notified "pyval list"
  | Failed exn

text \<open>
  \<^verbatim>\<open>check_for_new_jobs\<close> (lines 419-451), from the set of seen identifiers to the way
  the run ended, the set after it and the effects of the run. Every exception is caught
  at line 448, which ends the run.
\<close>

text \<open>
  \<^verbatim>\<open>save_seen_jobs\<close> (lines 55-64): the attempt to write the set to the state file.
  It catches its own exceptions. The order of the list written and the timestamp are
  not modelled.
\<close>

definition save_seen_jobs :: "pyval set \<Rightarrow> event list" where
  "save_seen_jobs seen_job_ids = [Db_write seen_job_ids]"

definition scrape_posts :: "(string \<times> pyval) list \<Rightarrow> event list" where
  "scrape_posts calls = map (\<lambda>c. Scrape_post (fst c) (snd c)) calls"

definition check_for_new_jobs ::
  "config \<Rightarrow> runtime \<Rightarrow> env \<Rightarrow> pyval set \<Rightarrow> cycle_outcome \<times> pyval set \<times> event list" where
  "check_for_new_jobs cfg rt w seen_job_ids =
     (case fetch_jobs cfg rt w of
        (Inl e, calls) \<Rightarrow> (Failed e, seen_job_ids, scrape_posts calls)
      | (Inr jobs, calls) \<Rightarrow>
          (let posts = scrape_posts calls in
           if \<not> truthy jobs then (No_jobs, seen_job_ids, posts)
           else
             (case py_iter jobs of
                Inl e \<Rightarrow> (Failed e, seen_job_ids, posts)
              | Inr items \<Rightarrow>
                  (case new_jobs_loop rt items seen_job_ids [] of
                     (Inl e, seen') \<Rightarrow> (Failed e, seen', posts)
                   | (Inr new_jobs, seen') \<Rightarrow>
                       if new_jobs \<noteq> [] then
                         (case send_email cfg (resend w) new_jobs of
                            (Inl e, sent) \<Rightarrow> (Failed e, seen', posts @ sent)
                          | (Inr _, sent) \<Rightarrow>
                              (Notified new_jobs, seen', posts @ sent @ save_seen_jobs seen'))
                       else (No_new_jobs, seen', posts)))))"

section \<open>Notions used to state the properties\<close>

text \<open>
  Position \<open>i\<close> of a batch with identifiers \<open>ids\<close> meets an identifier that is neither in
  the set the run started with nor among the identifiers of the records before it.
\<close>

definition is_new :: "pyval set \<Rightarrow> string list \<Rightarrow> nat \<Rightarrow> bool" where
  "is_new seen ids i = (i < length ids \<and> PStr (ids ! i) \<notin> seen \<union> PStr ` set (take i ids))"

text \<open>Two records as the parser builds them, and a process that hashes their links to 111 and 222.\<close>

definition job1 :: pyval where
  "job1 = PDict [(''title'', PStr ''React Developer''), (''company'', PStr ''Acme''),
                 (''location'', PStr ''Warszawa''),
                 (''link'', PStr ''https://it.pracuj.pl/praca/1'')]"

definition job2 :: pyval where
  "job2 = PDict [(''title'', PStr ''Frontend Engineer''), (''company'', PStr ''Initech''),
                 (''location'', PStr ''Gdansk''),
                 (''link'', PStr ''https://it.pracuj.pl/praca/2'')]"

definition example_runtime :: runtime where
  "example_runtime =
     \<lparr>py_hash = (\<lambda>v. if v = PStr ''https://it.pracuj.pl/praca/1'' then 111 else 222),
      py_str = (\<lambda>v. ''None'')\<rparr>"

text \<open>
  The fallback matrix as the design notes put it: an explicit ordered list of (endpoint,
  payload) pairs, tried in sequence and left at the first pair whose attempt does not
  say to go on.
\<close>

fun try_in_order ::
  "(http_result \<Rightarrow> flow) \<Rightarrow> (string \<Rightarrow> pyval \<Rightarrow> http_result) \<Rightarrow> (string \<times> pyval) list
   \<Rightarrow> flow \<times> (string \<times> pyval) list" where
  "try_in_order body post [] = (Next, [])"
| "try_in_order body post (c # cs) =
     (case body (post (fst c) (snd c)) of
        Next \<Rightarrow> (case try_in_order body post cs of (r, calls) \<Rightarrow> (r, c # calls))
      | r \<Rightarrow> (r, [c]))"

definition flow_result :: "flow \<Rightarrow> exn + pyval" where
  "flow_result r =
     (case r of Next \<Rightarrow> Inr (PList []) | Return jobs \<Rightarrow> Inr jobs | Raise e \<Rightarrow> Inl e)"

text \<open>The combinations of a mode, endpoints outside and payloads inside.\<close>

definition extract_combos :: "config \<Rightarrow> (string \<times> pyval) list" where
  "extract_combos cfg = List.product extract_endpoints (extract_payloads cfg)"

definition scrape_combos :: "config \<Rightarrow> (string \<times> pyval) list" where
  "scrape_combos cfg = List.product scrape_endpoints (scrape_payloads cfg)"

definition answer :: "(string \<Rightarrow> pyval \<Rightarrow> http_result) \<Rightarrow> string \<times> pyval \<Rightarrow> http_result" where
  "answer post c = post (fst c) (snd c)"

text \<open>
  A configured process, and a scraping service whose v2 endpoints answer HTTP 500 and
  whose v1 endpoints answer HTTP 200 with one job (extract) and with a page holding one
  matching anchor (scrape).
\<close>

definition example_config :: config where
  "example_config =
     \<lparr>FIRECRAWL_API_KEY = Some ''fc-key'', RESEND_API_KEY = Some ''re-key'',
      EMAIL_TO = Some ''me@example.com'',
      JOB_BOARD_URL = Some ''https://it.pracuj.pl/praca/react;kw''\<rparr>"

definition example_anchor :: anchor where
  "example_anchor =
     \<lparr>get_text = ''React Developer'', href = ''/praca/123'',
      find_parent = Some \<lparr>company_elem = Some ''Acme'', location_elem = None\<rparr>\<rparr>"

definition example_find_links :: "pyval \<Rightarrow> anchor list option" where
  "example_find_links html = Some [example_anchor]"

definition example_post :: "string \<Rightarrow> pyval \<Rightarrow> http_result" where
  "example_post endpoint payload =
     (if endpoint = ''https://api.firecrawl.dev/v1/extract''
      then Response 200 (Some (PDict [(''success'', PBool True),
                                      (''data'', PDict [(''jobs'', PList [job1])])]))
      else if endpoint = ''https://api.firecrawl.dev/v1/scrape''
      then Response 200 (Some (PDict [(''success'', PBool True),
                                      (''data'',
                                       PDict [(''html'', PStr ''<ul id=offers-list></ul>'')])]))
      else Response 500 None)"

definition job1_with_id :: pyval where
  "job1_with_id =
     PDict [(''title'', PStr ''React Developer''), (''company'', PStr ''Acme''),
            (''location'', PStr ''Warszawa''),
            (''link'', PStr ''https://it.pracuj.pl/praca/1''), (''id'', PInt 222)]"

definition parsed_job :: pyval where
  "parsed_job =
     make_job ''React Developer'' ''Acme'' ''Location not specified''
       ''https://it.pracuj.pl/praca/123''"

text \<open>
  The title of a record when it has one that is a str, and the invariant of the data
  model: a title of at least five characters.
\<close>

definition job_title :: "pyval \<Rightarrow> string option" where
  "job_title job =
     (case job of
        PDict kvs \<Rightarrow> (case map_of kvs ''title'' of Some (PStr t) \<Rightarrow> Some t | _ \<Rightarrow> None)
      | _ \<Rightarrow> None)"

definition has_valid_title :: "pyval \<Rightarrow> bool" where
  "has_valid_title job = (case job_title job of Some t \<Rightarrow> 5 \<le> length t | None \<Rightarrow> False)"

text \<open>
  Four anchors: a title of three characters, a relative link, the same title again with
  an absolute link, and a link that is neither relative nor absolute.
\<close>

definition example_links :: "anchor list" where
  "example_links =
     [\<lparr>get_text = ''Dev'', href = ''/praca/1'', find_parent = None\<rparr>,
      example_anchor,
      \<lparr>get_text = ''React Developer'', href = ''https://it.pracuj.pl/praca/456'',
       find_parent = None\<rparr>,
      \<lparr>get_text = ''Angular Developer'', href = ''praca/789'', find_parent = None\<rparr>]"

text \<open>A scraping service whose extract endpoints answer with one job titled "Dev".\<close>

definition short_title_post :: "string \<Rightarrow> pyval \<Rightarrow> http_result" where
  "short_title_post endpoint payload =
     Response 200
       (Some (PDict [(''success'', PBool True),
                     (''data'',
                      PDict [(''jobs'',
                              PList [PDict [(''title'', PStr ''Dev''),
                                            (''company'', PStr ''Acme''),
                                            (''link'', PStr ''https://it.pracuj.pl/praca/9'')]])])]))"

definition short_title_job :: pyval where
  "short_title_job =
     PDict [(''title'', PStr ''Dev''), (''company'', PStr ''Acme''),
            (''link'', PStr ''https://it.pracuj.pl/praca/9''), (''id'', PInt 222)]"





text \<open>
  A delivery failure of the email: the POST raised, or the status is one that
  \<^verbatim>\<open>raise_for_status\<close> turns into an \<^verbatim>\<open>HTTPError\<close>.
\<close>

definition delivery_failure :: "http_result \<Rightarrow> bool" where
  "delivery_failure r =
     (case r of
        Network_error \<Rightarrow> True
      | Response status_code body \<Rightarrow> 400 \<le> status_code \<and> status_code < 600)"

text \<open>
  The example scraping service together with an email service that answers HTTP 500,
  and the example configuration without the email API key.
\<close>

definition example_env :: env where
  "example_env =
     \<lparr>firecrawl = example_post, find_job_links = example_find_links,
      resend = (\<lambda>jobs. Response 500 None)\<rparr>"

definition no_resend_config :: config where
  "no_resend_config = example_config\<lparr>RESEND_API_KEY := None\<rparr>"

text \<open>
  The same program started again: another process, whose \<^verbatim>\<open>hash\<close> is salted
  differently.
\<close>

definition restarted_runtime :: runtime where
  "restarted_runtime =
     \<lparr>py_hash = (\<lambda>v. if v = PStr ''https://it.pracuj.pl/praca/1'' then 333 else 444),
      py_str = (\<lambda>v. ''None'')\<rparr>"

definition job_without_link :: pyval where
  "job_without_link =
     PDict [(''title'', PStr ''React Developer''), (''company'', PStr ''Acme''),
            (''link'', PStr [])]"

text \<open>\<^verbatim>\<open>job['id'] = v\<close> on a record.\<close>

definition with_id :: "pyval \<Rightarrow> pyval \<Rightarrow> pyval" where
  "with_id v job = (case job of PDict kvs \<Rightarrow> PDict (AList.update ''id'' v kvs) | _ \<Rightarrow> job)"


section \<open>Properties\<close>

subsection \<open>Evaluation of the examples\<close>

lemma example_ids:
  "get_job_id example_runtime job1 = Inr ''111''"
  "get_job_id example_runtime job2 = Inr ''222''"
  by (simp_all add: get_job_id_def job1_def job2_def py_in_def py_getitem_def dict_get_def
        hash_of_def example_runtime_def str_int_def str_nat.simps digit_char_def)

subsection \<open>Deduplication\<close>

lemma is_new_Cons_seen:
  "PStr i \<in> seen \<Longrightarrow>
   0 \<notin> {k. is_new seen (i # ids) k} \<and>
   {j. Suc j \<in> {k. is_new seen (i # ids) k}} = {k. is_new seen ids k}"
  by (auto simp: is_new_def)

lemma is_new_Cons_new:
  "PStr i \<notin> seen \<Longrightarrow>
   0 \<in> {k. is_new seen (i # ids) k} \<and>
   {j. Suc j \<in> {k. is_new seen (i # ids) k}} = {k. is_new (insert (PStr i) seen) ids k}"
  by (auto simp: is_new_def)

lemma new_jobs_loop_nths:
  "map (get_job_id rt) jobs = map Inr ids \<Longrightarrow>
   new_jobs_loop rt jobs seen acc =
     (Inr (acc @ nths jobs {k. is_new seen ids k}), seen \<union> PStr ` set ids)"
proof (induction jobs arbitrary: ids seen acc)
  case Nil
  then show ?case by simp
next
  case (Cons job jobs)
  then obtain i ids' where ids: "ids = i # ids'" and gi: "get_job_id rt job = Inr i"
    and rest: "map (get_job_id rt) jobs = map Inr ids'"
    by (cases ids) auto
  show ?case
  proof (cases "PStr i \<in> seen")
    case True
    have "nths (job # jobs) {k. is_new seen ids k} = nths jobs {k. is_new seen ids' k}"
      using is_new_Cons_seen [OF True, of ids'] by (simp add: nths_Cons ids)
    moreover have "seen \<union> PStr ` set ids = seen \<union> PStr ` set ids'"
      using True by (auto simp: ids)
    ultimately show ?thesis
      using True gi Cons.IH [OF rest, of seen acc] by simp
  next
    case False
    have "nths (job # jobs) {k. is_new seen ids k}
          = job # nths jobs {k. is_new (insert (PStr i) seen) ids' k}"
      using is_new_Cons_new [OF False, of ids'] by (simp add: nths_Cons ids)
    moreover have "seen \<union> PStr ` set ids = insert (PStr i) seen \<union> PStr ` set ids'"
      by (auto simp: ids)
    ultimately show ?thesis
      using False gi Cons.IH [OF rest, of "insert (PStr i) seen" "acc @ [job]"] by simp
  qed
qed

lemma distinct_nths_first:
  "(\<forall>i\<in>A. i < length xs \<longrightarrow> xs ! i \<notin> set (take i xs)) \<Longrightarrow> distinct (nths xs A)"
proof (induction xs rule: rev_induct)
  case Nil
  then show ?case by simp
next
  case (snoc x xs)
  have "\<forall>i\<in>A. i < length xs \<longrightarrow> xs ! i \<notin> set (take i xs)"
  proof (intro ballI impI)
    fix i assume "i \<in> A" "i < length xs"
    with snoc.prems show "xs ! i \<notin> set (take i xs)"
      by (auto simp: nth_append dest!: bspec [where x = i])
  qed
  then have d: "distinct (nths xs A)" by (rule snoc.IH)
  show ?case
  proof (cases "length xs \<in> A")
    case True
    with snoc.prems have "x \<notin> set xs"
      by (auto dest!: bspec [where x = "length xs"])
    then have "x \<notin> set (nths xs A)"
      by (auto dest: in_set_nthsD)
    with d True show ?thesis by (simp add: nths_append)
  next
    case False
    with d show ?thesis by (simp add: nths_append)
  qed
qed

lemma new_ids_distinct:
  assumes "map (get_job_id rt) jobs = map Inr ids"
  shows "distinct (map (get_job_id rt) (nths jobs {k. is_new seen ids k}))"
proof -
  have "distinct (nths ids {k. is_new seen ids k})"
    by (rule distinct_nths_first) (auto simp: is_new_def)
  then have "distinct (map Inr (nths ids {k. is_new seen ids k}) :: (exn + string) list)"
    by (simp add: distinct_map)
  moreover have "map (get_job_id rt) (nths jobs {k. is_new seen ids k})
               = map Inr (nths ids {k. is_new seen ids k})"
    using assms by (simp add: nths_map [symmetric])
  ultimately show ?thesis by simp
qed

text \<open>
  C1. For a batch whose identifiers all compute (to \<open>ids\<close>), the loop reports exactly the
  records at the positions whose identifier is neither in the set the run started with
  nor the identifier of an earlier record of the batch, that is, absent from the set at
  the moment the record is processed; the set it leaves is the old one with every
  identifier of the batch added; and no two reported records share an identifier. With
  the set {"111"} and two records whose identifiers are "111" and "222", the second
  record alone is reported and the set becomes {"111", "222"}.
\<close>

theorem dedup_new_iff_unseen:
  "(map (get_job_id rt) jobs = map Inr ids \<longrightarrow>
      new_jobs_loop rt jobs seen [] =
        (Inr (nths jobs {i. is_new seen ids i}), seen \<union> PStr ` set ids) \<and>
      distinct (map (get_job_id rt) (nths jobs {i. is_new seen ids i}))) \<and>
   (get_job_id rt a = Inr ''111'' \<and> get_job_id rt b = Inr ''222'' \<longrightarrow>
      new_jobs_loop rt [a, b] {PStr ''111''} [] = (Inr [b], {PStr ''111'', PStr ''222''}))"
proof (intro conjI impI)
  assume "map (get_job_id rt) jobs = map Inr ids"
  then show "new_jobs_loop rt jobs seen [] =
        (Inr (nths jobs {i. is_new seen ids i}), seen \<union> PStr ` set ids)"
    using new_jobs_loop_nths [of rt jobs ids seen "[]"] by simp
next
  assume "map (get_job_id rt) jobs = map Inr ids"
  then show "distinct (map (get_job_id rt) (nths jobs {i. is_new seen ids i}))"
    by (rule new_ids_distinct)
next
  assume "get_job_id rt a = Inr ''111'' \<and> get_job_id rt b = Inr ''222''"
  then show "new_jobs_loop rt [a, b] {PStr ''111''} [] = (Inr [b], {PStr ''111'', PStr ''222''})"
    by auto
qed

theorem dedup_new_iff_unseen_witness:
  "map (get_job_id example_runtime) [job1, job2] = map Inr [''111'', ''222''] \<and>
   nths [job1, job2] {i. is_new {PStr ''111''} [''111'', ''222''] i} = [job2] \<and>
   new_jobs_loop example_runtime [job1, job2] {PStr ''111''} [] =
     (Inr [job2], {PStr ''111'', PStr ''222''})"
  using dedup_new_iff_unseen [of example_runtime "[job1, job2]" "[''111'', ''222'']"
          "{PStr ''111''}" job1 job2]
  by (simp add: example_ids)

subsection \<open>Fallback order of the fetcher\<close>

lemma payload_loop_in_order:
  "payload_loop body post e ps = try_in_order body post (map (Pair e) ps)"
  by (induction ps) (auto split: flow.splits prod.splits)

lemma try_in_order_append:
  "try_in_order body post (xs @ ys) =
     (case try_in_order body post xs of
        (Next, calls) \<Rightarrow> (case try_in_order body post ys of (r, calls') \<Rightarrow> (r, calls @ calls'))
      | (r, calls) \<Rightarrow> (r, calls))"
  by (induction xs) (auto split: flow.splits prod.splits)

lemma endpoint_loop_in_order:
  "endpoint_loop body post es ps = try_in_order body post (List.product es ps)"
  by (induction es) (auto simp: payload_loop_in_order try_in_order_append split: flow.splits prod.splits)

lemma try_in_order_first:
  "i < length cs \<Longrightarrow> \<forall>j<i. body (post (fst (cs ! j)) (snd (cs ! j))) = Next \<Longrightarrow>
   body (post (fst (cs ! i)) (snd (cs ! i))) = r \<Longrightarrow> r \<noteq> Next \<Longrightarrow>
   try_in_order body post cs = (r, take (Suc i) cs)"
proof (induction cs arbitrary: i)
  case Nil
  then show ?case by simp
next
  case (Cons c cs)
  show ?case
  proof (cases i)
    case 0
    with Cons.prems show ?thesis by (auto split: flow.splits)
  next
    case (Suc k)
    with Cons.prems have "body (post (fst c) (snd c)) = Next" by auto
    moreover have "try_in_order body post cs = (r, take (Suc k) cs)"
      using Cons.prems Suc by (intro Cons.IH) auto
    ultimately show ?thesis using Suc by simp
  qed
qed


lemma try_in_order_calls_prefix: "prefix (snd (try_in_order body post cs)) cs"
  by (induction cs) (auto split: flow.splits prod.splits)

lemma extract_in_order:
  "key_set (FIRECRAWL_API_KEY cfg) \<Longrightarrow>
   scrape_jobs_with_firecrawl_extract cfg rt post =
     (case try_in_order (extract_attempt rt) post (extract_combos cfg) of
        (r, calls) \<Rightarrow> (flow_result r, calls))"
  by (simp add: scrape_jobs_with_firecrawl_extract_def endpoint_loop_in_order extract_combos_def
        flow_result_def split: prod.splits flow.splits)

lemma scrape_in_order:
  "key_set (FIRECRAWL_API_KEY cfg) \<Longrightarrow>
   scrape_jobs_with_firecrawl cfg rt find_links post =
     (case try_in_order (scrape_attempt rt find_links) post (scrape_combos cfg) of
        (r, calls) \<Rightarrow> (flow_result r, calls))"
  by (simp add: scrape_jobs_with_firecrawl_def endpoint_loop_in_order scrape_combos_def
        flow_result_def split: prod.splits flow.splits)

lemma add_ids_Nil: "add_ids rt js = Inr js' \<Longrightarrow> (js' = []) = (js = [])"
  by (cases js) (auto split: sum.splits)

lemma extract_combos_eq:
  "extract_payloads cfg = [p0, p1] \<Longrightarrow>
   extract_combos cfg =
     [(''https://api.firecrawl.dev/v2/extract'', p0), (''https://api.firecrawl.dev/v2/extract'', p1),
      (''https://api.firecrawl.dev/v1/extract'', p0), (''https://api.firecrawl.dev/v1/extract'', p1)]"
  by (simp add: extract_combos_def extract_endpoints_def)

lemma extract_payloads_two: "\<exists>p1. extract_payloads cfg = [hd (extract_payloads cfg), p1]"
  by (simp add: extract_payloads_def)

lemma example_key: "key_set (FIRECRAWL_API_KEY example_config)"
  by (simp add: example_config_def key_set_def)

lemma example_extract_attempts:
  "extract_attempt example_runtime (answer example_post (extract_combos example_config ! 0)) = Next"
  "extract_attempt example_runtime (answer example_post (extract_combos example_config ! 1)) = Next"
  "extract_attempt example_runtime (answer example_post (extract_combos example_config ! 2))
     = Return (PList [job1_with_id])"
  by (simp_all add: extract_attempt_def answer_def extract_combos_def extract_endpoints_def
        extract_payloads_def example_post_def dict_get_def extracted_data_def py_get_def
        assign_ids_def add_id_def py_in_def job1_def job1_with_id_def example_runtime_def
        format_val_def)

lemma example_scrape_attempts:
  "scrape_attempt example_runtime example_find_links (answer example_post (scrape_combos example_config ! 0)) = Next"
  "scrape_attempt example_runtime example_find_links (answer example_post (scrape_combos example_config ! 1)) = Next"
  "scrape_attempt example_runtime example_find_links (answer example_post (scrape_combos example_config ! 2)) = Next"
  "scrape_attempt example_runtime example_find_links (answer example_post (scrape_combos example_config ! 3))
     = Return (PList [parsed_job])"
  by (simp_all add: scrape_attempt_def answer_def scrape_combos_def scrape_endpoints_def
        scrape_payloads_def example_post_def dict_get_def content_of_def
        parse_jobs_from_html_def example_find_links_def example_anchor_def
        company_of_def location_of_def parsed_job_def Let_def)

text \<open>
  C2. With the API key set, in each mode: when the combination at position \<open>i\<close> of the
  list of combinations (endpoints outside, payloads inside) is the first whose attempt
  returns records, every attempt before it saying to go on, the fetcher returns those
  records and the calls it made are exactly the first \<open>i + 1\<close> combinations, none
  after the success. Whatever the answers, the calls made are an initial part of that
  list. When the primary extract endpoint answers HTTP 500 whatever the
  payload and the secondary answers HTTP 200 with a jobs array, the records of the
  secondary are returned after three calls.
\<close>

theorem fetcher_first_success_wins:
  "key_set (FIRECRAWL_API_KEY cfg) \<longrightarrow>
     (\<forall>i jobs. i < length (extract_combos cfg) \<and>
        (\<forall>j<i. extract_attempt rt (answer post (extract_combos cfg ! j)) = Next) \<and>
        extract_attempt rt (answer post (extract_combos cfg ! i)) = Return jobs \<longrightarrow>
        scrape_jobs_with_firecrawl_extract cfg rt post = (Inr jobs, take (Suc i) (extract_combos cfg))) \<and>
     (\<forall>i jobs. i < length (scrape_combos cfg) \<and>
        (\<forall>j<i. scrape_attempt rt find_links (answer post (scrape_combos cfg ! j)) = Next) \<and>
        scrape_attempt rt find_links (answer post (scrape_combos cfg ! i)) = Return jobs \<longrightarrow>
        scrape_jobs_with_firecrawl cfg rt find_links post =
          (Inr jobs, take (Suc i) (scrape_combos cfg))) \<and>
     ((\<forall>p. \<exists>body. post ''https://api.firecrawl.dev/v2/extract'' p = Response 500 body) \<and>
      post ''https://api.firecrawl.dev/v1/extract'' (hd (extract_payloads cfg)) =
        Response 200 (Some (PDict [(''jobs'', PList js)])) \<and>
      js \<noteq> [] \<and> add_ids rt js = Inr js' \<longrightarrow>
      scrape_jobs_with_firecrawl_extract cfg rt post =
        (Inr (PList js'), take 3 (extract_combos cfg))) \<and>
     prefix (snd (scrape_jobs_with_firecrawl_extract cfg rt post)) (extract_combos cfg) \<and>
     prefix (snd (scrape_jobs_with_firecrawl cfg rt find_links post)) (scrape_combos cfg)"
proof (intro impI conjI allI)
  fix i jobs
  assume k: "key_set (FIRECRAWL_API_KEY cfg)"
  assume h: "i < length (extract_combos cfg) \<and>
        (\<forall>j<i. extract_attempt rt (answer post (extract_combos cfg ! j)) = Next) \<and>
        extract_attempt rt (answer post (extract_combos cfg ! i)) = Return jobs"
  then have "try_in_order (extract_attempt rt) post (extract_combos cfg)
             = (Return jobs, take (Suc i) (extract_combos cfg))"
    by (intro try_in_order_first) (auto simp: answer_def)
  then show "scrape_jobs_with_firecrawl_extract cfg rt post
             = (Inr jobs, take (Suc i) (extract_combos cfg))"
    by (simp add: extract_in_order [OF k] flow_result_def)
next
  fix i jobs
  assume k: "key_set (FIRECRAWL_API_KEY cfg)"
  assume h: "i < length (scrape_combos cfg) \<and>
        (\<forall>j<i. scrape_attempt rt find_links (answer post (scrape_combos cfg ! j)) = Next) \<and>
        scrape_attempt rt find_links (answer post (scrape_combos cfg ! i)) = Return jobs"
  then have "try_in_order (scrape_attempt rt find_links) post (scrape_combos cfg)
             = (Return jobs, take (Suc i) (scrape_combos cfg))"
    by (intro try_in_order_first) (auto simp: answer_def)
  then show "scrape_jobs_with_firecrawl cfg rt find_links post
             = (Inr jobs, take (Suc i) (scrape_combos cfg))"
    by (simp add: scrape_in_order [OF k] flow_result_def)
next
  assume k: "key_set (FIRECRAWL_API_KEY cfg)"
  assume h: "(\<forall>p. \<exists>body. post ''https://api.firecrawl.dev/v2/extract'' p = Response 500 body) \<and>
      post ''https://api.firecrawl.dev/v1/extract'' (hd (extract_payloads cfg)) =
        Response 200 (Some (PDict [(''jobs'', PList js)])) \<and>
      js \<noteq> [] \<and> add_ids rt js = Inr js'"
  obtain p0 p1 where ps: "extract_payloads cfg = [p0, p1]" and p0: "p0 = hd (extract_payloads cfg)"
    using extract_payloads_two [of cfg] by auto
  have a0: "extract_attempt rt (post ''https://api.firecrawl.dev/v2/extract'' p) = Next" for p
  proof -
    from h obtain body where "post ''https://api.firecrawl.dev/v2/extract'' p = Response 500 body"
      by blast
    then show ?thesis by (simp add: extract_attempt_def)
  qed
  from h have "js' \<noteq> []" using add_ids_Nil [of rt js js'] by simp
  with h have a1: "extract_attempt rt (post ''https://api.firecrawl.dev/v1/extract'' p0)
                   = Return (PList js')"
    by (simp add: p0 extract_attempt_def dict_get_def extracted_data_def py_get_def assign_ids_def)
  show "scrape_jobs_with_firecrawl_extract cfg rt post =
        (Inr (PList js'), take 3 (extract_combos cfg))"
    by (simp add: extract_in_order [OF k] extract_combos_eq [OF ps] a0 a1 flow_result_def)
next
  assume k: "key_set (FIRECRAWL_API_KEY cfg)"
  show "prefix (snd (scrape_jobs_with_firecrawl_extract cfg rt post)) (extract_combos cfg)"
    using try_in_order_calls_prefix [of "extract_attempt rt" post "extract_combos cfg"]
    by (auto simp: extract_in_order [OF k] split: prod.splits)
next
  assume k: "key_set (FIRECRAWL_API_KEY cfg)"
  show "prefix (snd (scrape_jobs_with_firecrawl cfg rt find_links post)) (scrape_combos cfg)"
    using try_in_order_calls_prefix [of "scrape_attempt rt find_links" post "scrape_combos cfg"]
    by (auto simp: scrape_in_order [OF k] split: prod.splits)
qed

theorem fetcher_first_success_wins_witness:
  "key_set (FIRECRAWL_API_KEY example_config) \<and>
   scrape_jobs_with_firecrawl_extract example_config example_runtime example_post =
     (Inr (PList [job1_with_id]),
      [(''https://api.firecrawl.dev/v2/extract'', extract_payloads example_config ! 0),
       (''https://api.firecrawl.dev/v2/extract'', extract_payloads example_config ! 1),
       (''https://api.firecrawl.dev/v1/extract'', extract_payloads example_config ! 0)]) \<and>
   scrape_jobs_with_firecrawl example_config example_runtime example_find_links example_post =
     (Inr (PList [parsed_job]),
      [(''https://api.firecrawl.dev/v2/scrape'', scrape_payloads example_config ! 0),
       (''https://api.firecrawl.dev/v2/scrape'', scrape_payloads example_config ! 1),
       (''https://api.firecrawl.dev/v2/scrape'', scrape_payloads example_config ! 2),
       (''https://api.firecrawl.dev/v1/scrape'', scrape_payloads example_config ! 0)]) \<and>
   (\<forall>p. \<exists>body. example_post ''https://api.firecrawl.dev/v2/extract'' p = Response 500 body) \<and>
   add_ids example_runtime [job1] = Inr [job1_with_id]"
proof -
  note t = fetcher_first_success_wins [of example_config example_runtime example_post
             example_find_links "[job1]" "[job1_with_id]", THEN mp, OF example_key]
  have e: "scrape_jobs_with_firecrawl_extract example_config example_runtime example_post =
     (Inr (PList [job1_with_id]), take (Suc 2) (extract_combos example_config))"
  proof -
    have "2 < length (extract_combos example_config) \<and>
        (\<forall>j<2. extract_attempt example_runtime (answer example_post (extract_combos example_config ! j)) = Next) \<and>
        extract_attempt example_runtime (answer example_post (extract_combos example_config ! 2)) = Return (PList [job1_with_id])"
    proof (intro conjI allI impI)
      show "2 < length (extract_combos example_config)"
        by (simp add: extract_combos_def extract_endpoints_def extract_payloads_def)
    next
      fix j :: nat assume "j < 2"
      then have "j = 0 \<or> j = 1" by auto
      then show "extract_attempt example_runtime
          (answer example_post (extract_combos example_config ! j)) = Next"
        using example_extract_attempts by auto
    qed (rule example_extract_attempts)
    with t show ?thesis by blast
  qed
  have s: "scrape_jobs_with_firecrawl example_config example_runtime example_find_links example_post =
     (Inr (PList [parsed_job]), take (Suc 3) (scrape_combos example_config))"
  proof -
    have "3 < length (scrape_combos example_config) \<and>
        (\<forall>j<3. scrape_attempt example_runtime example_find_links (answer example_post (scrape_combos example_config ! j)) = Next) \<and>
        scrape_attempt example_runtime example_find_links (answer example_post (scrape_combos example_config ! 3)) = Return (PList [parsed_job])"
    proof (intro conjI allI impI)
      show "3 < length (scrape_combos example_config)"
        by (simp add: scrape_combos_def scrape_endpoints_def scrape_payloads_def)
    next
      fix j :: nat assume "j < 3"
      then have "j = 0 \<or> j = 1 \<or> j = 2" by auto
      then show "scrape_attempt example_runtime example_find_links
          (answer example_post (scrape_combos example_config ! j)) = Next"
        using example_scrape_attempts by auto
    qed (rule example_scrape_attempts)
    with t show ?thesis by blast
  qed
  have a: "add_ids example_runtime [job1] = Inr [job1_with_id]"
    by (simp add: add_id_def py_in_def job1_def job1_with_id_def example_runtime_def
          format_val_def dict_get_def)
  have p: "\<forall>p. \<exists>body. example_post ''https://api.firecrawl.dev/v2/extract'' p = Response 500 body"
    by (simp add: example_post_def)
  show ?thesis
    using e s a p example_key
    by (simp add: extract_combos_def scrape_combos_def extract_endpoints_def scrape_endpoints_def
          extract_payloads_def scrape_payloads_def)
qed

subsection \<open>Titles\<close>

lemma job_title_make_job [simp]: "job_title (make_job t c l h) = Some t"
  by (simp add: job_title_def make_job_def)

lemma parse_links_titles:
  "\<forall>j\<in>set jobs. has_valid_title j \<Longrightarrow> distinct (map job_title jobs) \<Longrightarrow>
   \<forall>j\<in>set jobs. \<exists>t. job_title j = Some t \<and> t \<in> seen \<Longrightarrow>
   (\<forall>j\<in>set (parse_links links seen jobs). has_valid_title j) \<and>
   distinct (map job_title (parse_links links seen jobs))"
proof (induction links arbitrary: seen jobs)
  case Nil
  then show ?case by simp
next
  case (Cons link links)
  let ?t = "get_text link"
  show ?case
  proof (cases "?t = [] \<or> length ?t < 5 \<or> ?t \<in> seen \<or> (\<not> prefix ''/'' (href link) \<and> \<not> prefix ''http'' (href link))")
    case True
    then have "parse_links (link # links) seen jobs = parse_links links seen jobs"
      by (auto simp: Let_def)
    with Cons show ?thesis by simp
  next
    case False
    define h where "h = (if prefix ''/'' (href link) then ''https://it.pracuj.pl'' @ href link else href link)"
    define job where "job = make_job ?t (company_of link) (location_of link) h"
    from False have step: "parse_links (link # links) seen jobs
        = parse_links links (insert ?t seen) (jobs @ [job])"
      by (auto simp: Let_def job_def h_def)
    have v: "\<forall>j\<in>set (jobs @ [job]). has_valid_title j"
      using Cons.prems(1) False by (auto simp: job_def has_valid_title_def)
    have "Some ?t \<notin> set (map job_title jobs)"
      using Cons.prems(3) False by auto
    then have d: "distinct (map job_title (jobs @ [job]))"
      using Cons.prems(2) by (simp add: job_def)
    have s: "\<forall>j\<in>set (jobs @ [job]). \<exists>t. job_title j = Some t \<and> t \<in> insert ?t seen"
      using Cons.prems(3) by (auto simp: job_def)
    show ?thesis
      unfolding step by (rule Cons.IH [OF v d s])
  qed
qed

lemma parse_jobs_titles:
  "(\<forall>j\<in>set (parse_jobs_from_html find_links html). has_valid_title j) \<and>
   distinct (map job_title (parse_jobs_from_html find_links html))"
proof (cases "truthy html")
  case False
  then show ?thesis by (simp add: parse_jobs_from_html_def)
next
  case True
  show ?thesis
  proof (cases "find_links html")
    case None
    with True show ?thesis by (simp add: parse_jobs_from_html_def)
  next
    case (Some links)
    with True parse_links_titles [of "[]" "{}" links] show ?thesis
      by (simp add: parse_jobs_from_html_def)
  qed
qed

lemma try_in_order_Return:
  "try_in_order body post cs = (Return v, calls) \<Longrightarrow>
   \<exists>c\<in>set cs. body (post (fst c) (snd c)) = Return v"
  by (induction cs arbitrary: calls) (auto split: flow.splits prod.splits)

lemma scrape_attempt_Return:
  "scrape_attempt rt find_links r = Return v \<Longrightarrow>
   \<exists>html. v = PList (parse_jobs_from_html find_links html)"
  by (auto simp: scrape_attempt_def Let_def
      split: http_result.splits if_splits option.splits sum.splits)

lemma example_parse:
  "parse_jobs_from_html (\<lambda>html. Some example_links) (PStr ''<html>'') =
     [parsed_job]"
  by (simp add: parse_jobs_from_html_def example_links_def example_anchor_def parsed_job_def
        company_of_def location_of_def Let_def)


lemma example_scrape_run:
  "scrape_jobs_with_firecrawl example_config example_runtime example_find_links example_post =
     (Inr (PList [parsed_job]), take 4 (scrape_combos example_config))"
  by (simp add: scrape_jobs_with_firecrawl_def example_key scrape_combos_def
        scrape_endpoints_def scrape_payloads_def scrape_attempt_def example_post_def
        dict_get_def content_of_def parse_jobs_from_html_def example_find_links_def
        example_anchor_def company_of_def location_of_def parsed_job_def Let_def)

text \<open>
  C3 (amended). Every record the HTML parser returns has a title of at least five
  characters, as \<^verbatim>\<open>get_text(strip=True)\<close> gave it, and no two records of one parse
  call have the same title; the same holds for whatever scrape mode returns, which is
  the parser's output. Extract mode checks no title: its records are returned as the
  service sent them (see the counterexample).
\<close>

theorem parser_titles_valid_and_distinct:
  "(\<forall>job\<in>set (parse_jobs_from_html find_links html). has_valid_title job) \<and>
   distinct (map job_title (parse_jobs_from_html find_links html)) \<and>
   (scrape_jobs_with_firecrawl cfg rt find_links post = (Inr jobs, calls) \<longrightarrow>
      (\<exists>js. jobs = PList js \<and> (\<forall>job\<in>set js. has_valid_title job) \<and>
            distinct (map job_title js)))"
proof (intro conjI impI)
  show "\<forall>job\<in>set (parse_jobs_from_html find_links html). has_valid_title job"
    using parse_jobs_titles by blast
  show "distinct (map job_title (parse_jobs_from_html find_links html))"
    using parse_jobs_titles by blast
next
  assume r: "scrape_jobs_with_firecrawl cfg rt find_links post = (Inr jobs, calls)"
  then have k: "key_set (FIRECRAWL_API_KEY cfg)"
    by (auto simp: scrape_jobs_with_firecrawl_def split: if_splits)
  obtain f cs where t: "try_in_order (scrape_attempt rt find_links) post (scrape_combos cfg) = (f, cs)"
    by (cases "try_in_order (scrape_attempt rt find_links) post (scrape_combos cfg)")
  with r have fr: "flow_result f = Inr jobs"
    by (simp add: scrape_in_order [OF k])
  show "\<exists>js. jobs = PList js \<and> (\<forall>job\<in>set js. has_valid_title job) \<and> distinct (map job_title js)"
  proof (cases f)
    case Next
    with fr show ?thesis by (auto simp: flow_result_def)
  next
    case (Return v)
    with fr have "v = jobs" by (simp add: flow_result_def)
    with t Return obtain html where "jobs = PList (parse_jobs_from_html find_links html)"
      using try_in_order_Return scrape_attempt_Return by blast
    then show ?thesis using parse_jobs_titles by blast
  next
    case (Raise e)
    with fr show ?thesis by (simp add: flow_result_def)
  qed
qed

theorem parser_titles_valid_and_distinct_witness:
  "parsed_job \<in> set (parse_jobs_from_html (\<lambda>html. Some example_links) (PStr ''<html>'')) \<and>
   has_valid_title parsed_job \<and>
   scrape_jobs_with_firecrawl example_config example_runtime example_find_links example_post =
     (Inr (PList [parsed_job]), take 4 (scrape_combos example_config)) \<and>
   (\<exists>js. PList [parsed_job] = PList js \<and> (\<forall>job\<in>set js. has_valid_title job) \<and>
         distinct (map job_title js))"
proof -
  have m: "parsed_job \<in> set (parse_jobs_from_html (\<lambda>html. Some example_links) (PStr ''<html>''))"
    by (simp add: example_parse)
  have s: "scrape_jobs_with_firecrawl example_config example_runtime example_find_links
             example_post = (Inr (PList [parsed_job]), take 4 (scrape_combos example_config))"
    by (rule example_scrape_run)
  from m s show ?thesis
    using parser_titles_valid_and_distinct [of "\<lambda>html. Some example_links" "PStr ''<html>''"]
      parser_titles_valid_and_distinct [of example_find_links "PStr []" example_config
        example_runtime example_post "PList [parsed_job]" "take 4 (scrape_combos example_config)"]
    by blast
qed

theorem extract_mode_title_counterexample:
  "scrape_jobs_with_firecrawl_extract example_config example_runtime short_title_post =
     (Inr (PList [short_title_job]),
      [(''https://api.firecrawl.dev/v2/extract'', hd (extract_payloads example_config))]) \<and>
   job_title short_title_job = Some ''Dev'' \<and>
   \<not> has_valid_title short_title_job"
  by (simp add: scrape_jobs_with_firecrawl_extract_def example_key extract_endpoints_def
        extract_payloads_def extract_attempt_def short_title_post_def dict_get_def
        extracted_data_def py_get_def assign_ids_def add_id_def py_in_def format_val_def
        example_runtime_def short_title_job_def job_title_def has_valid_title_def)

subsection \<open>Failures of the scraping service\<close>












subsection \<open>Persistence of the seen identifiers\<close>

lemma get_job_id_is_dict: "get_job_id rt job = Inr i \<Longrightarrow> is_dict job"
  by (cases job)
     (auto simp: get_job_id_def title_company_id_def py_in_def py_getitem_def py_get_def is_dict_def
        split: if_splits sum.splits)

lemma new_jobs_loop_dicts:
  "new_jobs_loop rt items seen acc = (Inr new, seen') \<Longrightarrow> list_all is_dict acc \<Longrightarrow>
   list_all is_dict new"
proof (induction items arbitrary: seen acc)
  case Nil
  then show ?case by simp
next
  case (Cons job items)
  then show ?case
    by (auto split: sum.splits if_splits dest: get_job_id_is_dict)
qed

lemma send_email_sent:
  "send_email cfg post jobs = (Inr u, sent) \<Longrightarrow> jobs \<noteq> [] \<Longrightarrow> sent = [Email_post jobs]"
  by (auto simp: send_email_def split: if_splits http_result.splits option.splits)

lemma send_email_delivery_failure:
  "key_set (RESEND_API_KEY cfg) \<Longrightarrow> jobs \<noteq> [] \<Longrightarrow> list_all is_dict jobs \<Longrightarrow>
   delivery_failure (post jobs) \<Longrightarrow> send_email cfg post jobs = (Inr (), [Email_post jobs])"
  by (auto simp: send_email_def delivery_failure_def split: http_result.splits)

lemma check_after_dedup:
  assumes "fetch_jobs cfg rt w = (Inr jobs, calls)" "truthy jobs" "py_iter jobs = Inr items"
    "new_jobs_loop rt items seen [] = (Inr new, seen')"
  shows "check_for_new_jobs cfg rt w seen =
     (if new \<noteq> [] then
        (case send_email cfg (resend w) new of
           (Inl e, sent) \<Rightarrow> (Failed e, seen', scrape_posts calls @ sent)
         | (Inr _, sent) \<Rightarrow> (Notified new, seen', scrape_posts calls @ sent @ save_seen_jobs seen'))
      else (No_new_jobs, seen', scrape_posts calls))"
  using assms by (simp add: check_for_new_jobs_def save_seen_jobs_def Let_def)

lemma Db_write_not_scrape: "Db_write s \<notin> set (scrape_posts calls)"
  by (auto simp: scrape_posts_def)

lemma check_write_only_if:
  assumes c: "check_for_new_jobs cfg rt w seen = (out, seen', evs)" and d: "Db_write s \<in> set evs"
  shows "\<exists>new calls. new \<noteq> [] \<and> out = Notified new \<and> s = seen' \<and>
           evs = scrape_posts calls @ [Email_post new, Db_write seen']"
proof -
  obtain r calls where f: "fetch_jobs cfg rt w = (r, calls)" by (cases "fetch_jobs cfg rt w")
  show ?thesis
  proof (cases r)
    case (Inl e)
    with c d f Db_write_not_scrape [of s calls] show ?thesis
      by (auto simp: check_for_new_jobs_def save_seen_jobs_def)
  next
    case (Inr jobs)
    note jobs = Inr
    show ?thesis
    proof (cases "truthy jobs")
      case False
      with c d f jobs Db_write_not_scrape [of s calls] show ?thesis
        by (auto simp: check_for_new_jobs_def save_seen_jobs_def Let_def)
    next
      case True
      show ?thesis
      proof (cases "py_iter jobs")
        case (Inl e)
        with c d f jobs True Db_write_not_scrape [of s calls] show ?thesis
          by (auto simp: check_for_new_jobs_def save_seen_jobs_def Let_def)
      next
        case (Inr items)
        obtain nr s1 where l: "new_jobs_loop rt items seen [] = (nr, s1)"
          by (cases "new_jobs_loop rt items seen []")
        show ?thesis
        proof (cases nr)
          case (Inl e)
          with c d f jobs True Inr l Db_write_not_scrape [of s calls] show ?thesis
            by (auto simp: check_for_new_jobs_def save_seen_jobs_def Let_def)
        next
          case (Inr new)
          note ch = check_after_dedup [OF f [unfolded jobs] True \<open>py_iter jobs = Inr items\<close>
                      l [unfolded Inr]]
          show ?thesis
          proof (cases "new = []")
            case True
            with c d ch Db_write_not_scrape [of s calls] show ?thesis by (auto simp: save_seen_jobs_def)
          next
            case False
            obtain sr sent where se: "send_email cfg (resend w) new = (sr, sent)"
              by (cases "send_email cfg (resend w) new")
            show ?thesis
            proof (cases sr)
              case (Inl e)
              with se have "sent = [] \<or> sent = [Email_post new]"
                by (auto simp: send_email_def split: if_splits http_result.splits option.splits)
              with c d ch False se Inl Db_write_not_scrape [of s calls] show ?thesis
                by (auto simp: save_seen_jobs_def)
            next
              case (Inr u)
              with se False have "sent = [Email_post new]" by (auto dest: send_email_sent)
              with c d ch False se Inr Db_write_not_scrape [of s calls] show ?thesis
                by (auto simp: save_seen_jobs_def)
            qed
          qed
        qed
      qed
    qed
  qed
qed

lemma example_fetch:
  "fetch_jobs cfg example_runtime example_env =
     (if key_set (FIRECRAWL_API_KEY cfg)
      then (Inr (PList [job1_with_id]), take 3 (extract_combos cfg))
      else (Inl ValueError, []))"
  by (simp add: fetch_jobs_def scrape_jobs_with_firecrawl_extract_def example_env_def
        extract_combos_def extract_endpoints_def extract_payloads_def extract_attempt_def
        example_post_def dict_get_def extracted_data_def py_get_def assign_ids_def add_id_def
        py_in_def job1_def job1_with_id_def example_runtime_def format_val_def)

lemma example_dedup:
  "new_jobs_loop example_runtime [job1_with_id] {} [] = (Inr [job1_with_id], {PStr ''111''})"
  by (simp add: get_job_id_def job1_with_id_def py_in_def py_getitem_def dict_get_def
        hash_of_def example_runtime_def str_int_def str_nat.simps digit_char_def)

text \<open>
  C5 (amended). A run writes the set of seen identifiers only when it found new records,
  and then the write is the last effect of the run, right after the POST of the email,
  and writes the set as the deduplication left it. A run whose deduplication ends with
  no new record writes nothing. A run whose deduplication ends with new records writes
  the set whenever the notifier returns, and the notifier does return when the email
  API key is set and the send fails with a network error or an error status: a delivery
  failure does not prevent the write. (When the notifier raises, as it does without the
  email API key, the run ends before the write: see the counterexample.)
\<close>

theorem seen_persisted_after_send:
  "(check_for_new_jobs cfg rt w seen = (out, seen', evs) \<and> Db_write s \<in> set evs \<longrightarrow>
      (\<exists>new calls. new \<noteq> [] \<and> out = Notified new \<and> s = seen' \<and>
                    evs = scrape_posts calls @ [Email_post new, Db_write seen'])) \<and>
   (fetch_jobs cfg rt w = (Inr jobs, calls) \<and> truthy jobs \<and> py_iter jobs = Inr items \<and>
    new_jobs_loop rt items seen [] = (Inr new, seen1) \<longrightarrow>
      (new = [] \<longrightarrow> check_for_new_jobs cfg rt w seen = (No_new_jobs, seen1, scrape_posts calls)) \<and>
      (new \<noteq> [] \<and> fst (send_email cfg (resend w) new) = Inr () \<longrightarrow>
         check_for_new_jobs cfg rt w seen =
           (Notified new, seen1, scrape_posts calls @ [Email_post new, Db_write seen1])) \<and>
      (new \<noteq> [] \<and> key_set (RESEND_API_KEY cfg) \<and> delivery_failure (resend w new) \<longrightarrow>
         check_for_new_jobs cfg rt w seen =
           (Notified new, seen1, scrape_posts calls @ [Email_post new, Db_write seen1])))"
proof (intro conjI impI)
  assume "check_for_new_jobs cfg rt w seen = (out, seen', evs) \<and> Db_write s \<in> set evs"
  then show "\<exists>new calls. new \<noteq> [] \<and> out = Notified new \<and> s = seen' \<and>
                    evs = scrape_posts calls @ [Email_post new, Db_write seen']"
    using check_write_only_if by blast
next
  assume h: "fetch_jobs cfg rt w = (Inr jobs, calls) \<and> truthy jobs \<and> py_iter jobs = Inr items \<and>
    new_jobs_loop rt items seen [] = (Inr new, seen1)"
  then have ch: "check_for_new_jobs cfg rt w seen =
     (if new \<noteq> [] then
        (case send_email cfg (resend w) new of
           (Inl e, sent) \<Rightarrow> (Failed e, seen1, scrape_posts calls @ sent)
         | (Inr _, sent) \<Rightarrow> (Notified new, seen1, scrape_posts calls @ sent @ save_seen_jobs seen1))
      else (No_new_jobs, seen1, scrape_posts calls))"
    by (intro check_after_dedup) auto
  {
    assume "new = []"
    with ch show "check_for_new_jobs cfg rt w seen = (No_new_jobs, seen1, scrape_posts calls)"
      by simp
  }
  {
    assume a: "new \<noteq> [] \<and> fst (send_email cfg (resend w) new) = Inr ()"
    then obtain sent where se: "send_email cfg (resend w) new = (Inr (), sent)"
      by (cases "send_email cfg (resend w) new") auto
    with a have "sent = [Email_post new]" by (auto dest: send_email_sent)
    with ch a se show "check_for_new_jobs cfg rt w seen =
           (Notified new, seen1, scrape_posts calls @ [Email_post new, Db_write seen1])"
      by (simp add: save_seen_jobs_def)
  }
  {
    assume a: "new \<noteq> [] \<and> key_set (RESEND_API_KEY cfg) \<and> delivery_failure (resend w new)"
    from h have "list_all is_dict new"
      using new_jobs_loop_dicts [of rt items seen "[]" new seen1] by simp
    with a have "send_email cfg (resend w) new = (Inr (), [Email_post new])"
      by (intro send_email_delivery_failure) auto
    with ch a show "check_for_new_jobs cfg rt w seen =
           (Notified new, seen1, scrape_posts calls @ [Email_post new, Db_write seen1])"
      by (simp add: save_seen_jobs_def)
  }
qed

theorem seen_persisted_after_send_witness:
  "fetch_jobs example_config example_runtime example_env =
     (Inr (PList [job1_with_id]), take 3 (extract_combos example_config)) \<and>
   truthy (PList [job1_with_id]) \<and> py_iter (PList [job1_with_id]) = Inr [job1_with_id] \<and>
   new_jobs_loop example_runtime [job1_with_id] {} [] = (Inr [job1_with_id], {PStr ''111''}) \<and>
   [job1_with_id] \<noteq> [] \<and> key_set (RESEND_API_KEY example_config) \<and>
   delivery_failure (resend example_env [job1_with_id]) \<and>
   fst (send_email example_config (resend example_env) [job1_with_id]) = Inr () \<and>
   check_for_new_jobs example_config example_runtime example_env {} =
     (Notified [job1_with_id], {PStr ''111''},
      scrape_posts (take 3 (extract_combos example_config)) @
        [Email_post [job1_with_id], Db_write {PStr ''111''}]) \<and>
   Db_write {PStr ''111''} \<in>
     set (scrape_posts (take 3 (extract_combos example_config)) @
            [Email_post [job1_with_id], Db_write {PStr ''111''}]) \<and>
   new_jobs_loop example_runtime [job1_with_id] {PStr ''111''} [] = (Inr [], {PStr ''111''}) \<and>
   check_for_new_jobs example_config example_runtime example_env {PStr ''111''} =
     (No_new_jobs, {PStr ''111''}, scrape_posts (take 3 (extract_combos example_config)))"
proof -
  have f: "fetch_jobs example_config example_runtime example_env =
     (Inr (PList [job1_with_id]), take 3 (extract_combos example_config))"
    by (simp add: example_fetch example_key)
  have k: "key_set (RESEND_API_KEY example_config)"
    by (simp add: example_config_def key_set_def)
  have d: "delivery_failure (resend example_env [job1_with_id])"
    by (simp add: example_env_def delivery_failure_def)
  have s: "fst (send_email example_config (resend example_env) [job1_with_id]) = Inr ()"
    by (simp add: send_email_def k example_env_def is_dict_def job1_with_id_def)
  have l2: "new_jobs_loop example_runtime [job1_with_id] {PStr ''111''} [] = (Inr [], {PStr ''111''})"
    by (simp add: get_job_id_def job1_with_id_def py_in_def py_getitem_def dict_get_def
        hash_of_def example_runtime_def str_int_def str_nat.simps digit_char_def)
  note t1 = seen_persisted_after_send [of example_config example_runtime example_env "{}"
      "Notified [job1_with_id]" "{PStr ''111''}"
      "scrape_posts (take 3 (extract_combos example_config)) @
        [Email_post [job1_with_id], Db_write {PStr ''111''}]" "{PStr ''111''}"
      "PList [job1_with_id]" "take 3 (extract_combos example_config)" "[job1_with_id]"
      "[job1_with_id]" "{PStr ''111''}"]
  note t2 = seen_persisted_after_send [of example_config example_runtime example_env "{PStr ''111''}"
      No_new_jobs "{PStr ''111''}" "[]" "{}"
      "PList [job1_with_id]" "take 3 (extract_combos example_config)" "[job1_with_id]"
      "[]" "{PStr ''111''}"]
  have c1: "check_for_new_jobs example_config example_runtime example_env {} =
     (Notified [job1_with_id], {PStr ''111''},
      scrape_posts (take 3 (extract_combos example_config)) @
        [Email_post [job1_with_id], Db_write {PStr ''111''}])"
  proof -
    have "fetch_jobs example_config example_runtime example_env =
            (Inr (PList [job1_with_id]), take 3 (extract_combos example_config)) \<and>
          truthy (PList [job1_with_id]) \<and> py_iter (PList [job1_with_id]) = Inr [job1_with_id] \<and>
          new_jobs_loop example_runtime [job1_with_id] {} [] = (Inr [job1_with_id], {PStr ''111''})"
      using f example_dedup by (simp add: py_iter_def)
    moreover have "[job1_with_id] \<noteq> [] \<and> key_set (RESEND_API_KEY example_config) \<and>
          delivery_failure (resend example_env [job1_with_id])"
      using k d by simp
    ultimately show ?thesis using t1 [THEN conjunct2] by blast
  qed
  have c2: "check_for_new_jobs example_config example_runtime example_env {PStr ''111''} =
     (No_new_jobs, {PStr ''111''}, scrape_posts (take 3 (extract_combos example_config)))"
  proof -
    have "fetch_jobs example_config example_runtime example_env =
            (Inr (PList [job1_with_id]), take 3 (extract_combos example_config)) \<and>
          truthy (PList [job1_with_id]) \<and> py_iter (PList [job1_with_id]) = Inr [job1_with_id] \<and>
          new_jobs_loop example_runtime [job1_with_id] {PStr ''111''} [] = (Inr [], {PStr ''111''})"
      using f l2 by (simp add: py_iter_def)
    then show ?thesis using t2 [THEN conjunct2] by blast
  qed
  from f example_dedup k d s c1 c2 l2 show ?thesis
    by (simp add: py_iter_def)
qed

theorem missing_email_key_counterexample:
  "new_jobs_loop example_runtime [job1_with_id] {} [] = (Inr [job1_with_id], {PStr ''111''}) \<and>
   check_for_new_jobs no_resend_config example_runtime example_env {} =
     (Failed ValueError, {PStr ''111''}, scrape_posts (take 3 (extract_combos no_resend_config))) \<and>
   Db_write {PStr ''111''} \<notin> set (scrape_posts (take 3 (extract_combos no_resend_config)))"
proof -
  have k: "key_set (FIRECRAWL_API_KEY no_resend_config)"
    by (simp add: no_resend_config_def example_config_def key_set_def)
  have "check_for_new_jobs no_resend_config example_runtime example_env {} =
     (Failed ValueError, {PStr ''111''}, scrape_posts (take 3 (extract_combos no_resend_config)))"
  proof -
    have f: "fetch_jobs no_resend_config example_runtime example_env =
       (Inr (PList [job1_with_id]), take 3 (extract_combos no_resend_config))"
      by (simp add: example_fetch k)
    have se: "send_email no_resend_config (resend example_env) [job1_with_id]
              = (Inl ValueError, [])"
      by (simp add: send_email_def no_resend_config_def key_set_def)
    show ?thesis
      by (simp add: check_for_new_jobs_def save_seen_jobs_def f py_iter_def example_dedup se
            del: new_jobs_loop.simps)
  qed
  then show ?thesis
    using example_dedup Db_write_not_scrape by simp
qed

subsection \<open>Identifiers\<close>

lemma digit_char_inj: "a < 10 \<Longrightarrow> b < 10 \<Longrightarrow> digit_char a = digit_char b \<Longrightarrow> a = b"
proof -
  assume a: "a < 10" and b: "b < 10" and e: "digit_char a = digit_char b"
  have d: "distinct ''0123456789''" by simp
  have l: "length ''0123456789'' = 10" by simp
  from a b l e show "a = b"
    unfolding digit_char_def using nth_eq_iff_index_eq [OF d, of a b] by simp
qed

lemma str_nat_nonempty: "str_nat n \<noteq> []"
  by (subst str_nat.simps) simp

lemma str_nat_inj: "str_nat m = str_nat n \<Longrightarrow> m = n"
proof (induction m arbitrary: n rule: str_nat.induct)
  case (1 m)
  show ?case
  proof (cases "m < 10")
    case True
    note m = True
    show ?thesis
    proof (cases "n < 10")
      case True
      with m "1.prems" have "digit_char m = digit_char n"
        by (simp add: str_nat.simps [of m] str_nat.simps [of n])
      with m True show ?thesis by (rule digit_char_inj)
    next
      case False
      with m "1.prems" have "str_nat (n div 10) = []"
        by (simp add: str_nat.simps [of m] str_nat.simps [of n])
      then show ?thesis by (simp add: str_nat_nonempty)
    qed
  next
    case False
    note m = False
    show ?thesis
    proof (cases "n < 10")
      case True
      with m "1.prems" have "str_nat (m div 10) = []"
        by (simp add: str_nat.simps [of m] str_nat.simps [of n])
      then show ?thesis by (simp add: str_nat_nonempty)
    next
      case False
      with m "1.prems" have e: "str_nat (m div 10) = str_nat (n div 10)"
        and d: "digit_char (m mod 10) = digit_char (n mod 10)"
        by (simp_all add: str_nat.simps [of m] str_nat.simps [of n])
      from e m have "m div 10 = n div 10" by (intro "1.IH") auto
      moreover from d have "m mod 10 = n mod 10" by (intro digit_char_inj) auto
      ultimately show ?thesis by (metis div_mult_mod_eq)
    qed
  qed
qed

lemma str_int_inj_nonneg: "0 \<le> a \<Longrightarrow> 0 \<le> b \<Longrightarrow> str_int a = str_int b \<Longrightarrow> a = b"
  by (auto simp: str_int_def dest: str_nat_inj)

lemma get_job_id_link:
  "map_of kvs ''link'' = Some (PStr l) \<Longrightarrow> l \<noteq> [] \<Longrightarrow>
   get_job_id rt (PDict kvs) = Inr (str_int (py_hash rt (PStr l) mod 10 ^ 10))"
  by (simp add: get_job_id_def py_in_def py_getitem_def dict_get_def hash_of_def)

lemma get_job_id_no_link:
  "map_of kvs ''link'' = None \<or> (\<exists>v. map_of kvs ''link'' = Some v \<and> \<not> truthy v) \<Longrightarrow>
   get_job_id rt (PDict kvs) =
     Inr (str_int (py_hash rt (PStr (format_val rt (dict_get kvs ''title'' (PStr [])) @ ''_'' @
                                     format_val rt (dict_get kvs ''company'' (PStr []))))
                   mod 10 ^ 10))"
  by (auto simp: get_job_id_def py_in_def py_getitem_def dict_get_def title_company_id_def
        py_get_def)

lemma job1_link:
  "map_of [(''title'', PStr ''React Developer''), (''company'', PStr ''Acme''),
           (''location'', PStr ''Warszawa''),
           (''link'', PStr ''https://it.pracuj.pl/praca/1'')] ''link''
   = Some (PStr ''https://it.pracuj.pl/praca/1'')"
  by simp

text \<open>
  C6. For a record with a non-empty link, the identifier is the decimal text of the
  process's hash of the link modulo \<open>10^10\<close>, whatever the other fields hold; so within
  one process equal records get equal identifiers, and two processes give the record
  the same identifier exactly when their hashes of the link agree modulo \<open>10^10\<close>.
  Without a link, or with an empty one, the identifier comes in the same way from the
  hash of title, underscore, company. The identifier is thus only as stable across runs
  as the built-in \<^verbatim>\<open>hash\<close> of a str, which CPython salts per process.
\<close>

theorem job_id_follows_process_hash:
  "(map_of kvs ''link'' = Some (PStr l) \<and> l \<noteq> [] \<longrightarrow>
      get_job_id rt (PDict kvs) = Inr (str_int (py_hash rt (PStr l) mod 10 ^ 10)) \<and>
      (get_job_id rt1 (PDict kvs) = get_job_id rt2 (PDict kvs)) =
        (py_hash rt1 (PStr l) mod 10 ^ 10 = py_hash rt2 (PStr l) mod 10 ^ 10)) \<and>
   (map_of kvs ''link'' = None \<or> (\<exists>v. map_of kvs ''link'' = Some v \<and> \<not> truthy v) \<longrightarrow>
      get_job_id rt (PDict kvs) =
        Inr (str_int (py_hash rt (PStr (format_val rt (dict_get kvs ''title'' (PStr [])) @ ''_'' @
                                        format_val rt (dict_get kvs ''company'' (PStr []))))
                      mod 10 ^ 10)))"
proof (intro conjI impI)
  assume h: "map_of kvs ''link'' = Some (PStr l) \<and> l \<noteq> []"
  then show "get_job_id rt (PDict kvs) = Inr (str_int (py_hash rt (PStr l) mod 10 ^ 10))"
    by (simp add: get_job_id_link)
  have "(str_int (py_hash rt1 (PStr l) mod 10 ^ 10) = str_int (py_hash rt2 (PStr l) mod 10 ^ 10))
        = (py_hash rt1 (PStr l) mod 10 ^ 10 = py_hash rt2 (PStr l) mod 10 ^ 10)"
    using str_int_inj_nonneg [of "py_hash rt1 (PStr l) mod 10 ^ 10" "py_hash rt2 (PStr l) mod 10 ^ 10"]
    by auto
  with h show "(get_job_id rt1 (PDict kvs) = get_job_id rt2 (PDict kvs)) =
        (py_hash rt1 (PStr l) mod 10 ^ 10 = py_hash rt2 (PStr l) mod 10 ^ 10)"
    by (simp add: get_job_id_link)
next
  assume "map_of kvs ''link'' = None \<or> (\<exists>v. map_of kvs ''link'' = Some v \<and> \<not> truthy v)"
  then show "get_job_id rt (PDict kvs) =
        Inr (str_int (py_hash rt (PStr (format_val rt (dict_get kvs ''title'' (PStr [])) @ ''_'' @
                                        format_val rt (dict_get kvs ''company'' (PStr []))))
                      mod 10 ^ 10))"
    by (rule get_job_id_no_link)
qed

theorem job_id_follows_process_hash_witness:
  "get_job_id example_runtime job1 = Inr ''111'' \<and>
   get_job_id restarted_runtime job1 = Inr ''333'' \<and>
   get_job_id example_runtime job1 \<noteq> get_job_id restarted_runtime job1 \<and>
   get_job_id example_runtime job_without_link = Inr ''222''"
proof -
  note t = job_id_follows_process_hash
    [of "[(''title'', PStr ''React Developer''), (''company'', PStr ''Acme''),
          (''location'', PStr ''Warszawa''),
          (''link'', PStr ''https://it.pracuj.pl/praca/1'')]"
        "''https://it.pracuj.pl/praca/1''"]
  note u = job_id_follows_process_hash
    [of "[(''title'', PStr ''React Developer''), (''company'', PStr ''Acme''), (''link'', PStr [])]"
        "[]" example_runtime]
  have 1: "get_job_id example_runtime job1 = Inr ''111''"
    using t [of example_runtime] job1_link
    by (simp add: job1_def example_runtime_def str_int_def str_nat.simps digit_char_def)
  have 2: "get_job_id restarted_runtime job1 = Inr ''333''"
    using t [of restarted_runtime] job1_link
    by (simp add: job1_def restarted_runtime_def str_int_def str_nat.simps digit_char_def)
  have 3: "get_job_id example_runtime job1 \<noteq> get_job_id restarted_runtime job1"
  proof -
    have "(get_job_id example_runtime job1 = get_job_id restarted_runtime job1) =
          (py_hash example_runtime (PStr ''https://it.pracuj.pl/praca/1'') mod 10 ^ 10 =
           py_hash restarted_runtime (PStr ''https://it.pracuj.pl/praca/1'') mod 10 ^ 10)"
      unfolding job1_def
      using t [of example_runtime example_runtime restarted_runtime] job1_link by blast
    also have "\<dots> = False"
      by (simp add: example_runtime_def restarted_runtime_def)
    finally show ?thesis by simp
  qed
  have 4: "get_job_id example_runtime job_without_link = Inr ''222''"
    using u
    by (simp add: job_without_link_def example_runtime_def dict_get_def format_val_def
          str_int_def str_nat.simps digit_char_def)
  from 1 2 3 4 show ?thesis by simp
qed

subsection \<open>The id field\<close>

lemma map_of_update_other: "k \<noteq> ''id'' \<Longrightarrow> map_of (AList.update ''id'' v kvs) k = map_of kvs k"
  by (simp add: update_conv')

lemma get_job_id_agree:
  assumes "map_of kvs ''link'' = map_of kvs' ''link''" "map_of kvs ''title'' = map_of kvs' ''title''"
    "map_of kvs ''company'' = map_of kvs' ''company''"
  shows "get_job_id rt (PDict kvs) = get_job_id rt (PDict kvs')"
  using assms
  by (auto simp: get_job_id_def py_in_def py_getitem_def dict_get_def title_company_id_def
        py_get_def split: option.splits)

lemma get_job_id_with_id: "get_job_id rt (with_id v job) = get_job_id rt job"
proof (cases job)
  case (PDict kvs)
  then show ?thesis
    by (simp add: with_id_def get_job_id_agree [of "AList.update ''id'' v kvs" kvs]
          map_of_update_other)
qed (simp_all add: with_id_def)

lemma add_id_with_id: "add_id rt job = Inr job' \<Longrightarrow> \<exists>v. job' = with_id v job \<or> job' = job"
  by (cases job) (auto simp: add_id_def with_id_def py_in_def split: if_splits)

lemma new_jobs_loop_with_id:
  "new_jobs_loop rt (map (\<lambda>j. with_id (f j) j) jobs) seen (map (\<lambda>j. with_id (f j) j) acc) =
     (map_sum id (map (\<lambda>j. with_id (f j) j)) (fst (new_jobs_loop rt jobs seen acc)),
      snd (new_jobs_loop rt jobs seen acc))"
proof (induction jobs arbitrary: seen acc)
  case Nil
  show ?case by simp
next
  case (Cons job jobs)
  show ?case
  proof (cases "get_job_id rt job")
    case (Inl e)
    then show ?thesis by (simp add: get_job_id_with_id)
  next
    case (Inr i)
    show ?thesis
    proof (cases "PStr i \<in> seen")
      case True
      with Inr Cons.IH [of seen acc] show ?thesis by (simp add: get_job_id_with_id)
    next
      case False
      with Inr Cons.IH [of "insert (PStr i) seen" "acc @ [job]"] show ?thesis
        by (simp add: get_job_id_with_id)
    qed
  qed
qed

lemma example_add_id: "add_id example_runtime job1 = Inr job1_with_id"
  by (simp add: add_id_def py_in_def job1_def job1_with_id_def example_runtime_def
        format_val_def dict_get_def)

text \<open>
  C10. Setting or changing the \<open>id\<close> field of a record does not change its identifier;
  in particular the record that extract mode returns after synthesizing an \<open>id\<close> has the
  identifier of the record the service sent. Two dicts that agree on link, title and
  company have the same identifier. Deduplication of a batch whose records carry
  arbitrary \<open>id\<close> values reports the same records, up to that field, and leaves the same
  set as deduplication of the batch without them.
\<close>

theorem dedup_ignores_id_field:
  "get_job_id rt (with_id v job) = get_job_id rt job \<and>
   (add_id rt job = Inr job' \<longrightarrow> get_job_id rt job' = get_job_id rt job) \<and>
   (map_of kvs ''link'' = map_of kvs' ''link'' \<and> map_of kvs ''title'' = map_of kvs' ''title'' \<and>
    map_of kvs ''company'' = map_of kvs' ''company'' \<longrightarrow>
      get_job_id rt (PDict kvs) = get_job_id rt (PDict kvs')) \<and>
   new_jobs_loop rt (map (\<lambda>j. with_id (f j) j) jobs) seen [] =
     (map_sum id (map (\<lambda>j. with_id (f j) j)) (fst (new_jobs_loop rt jobs seen [])),
      snd (new_jobs_loop rt jobs seen []))"
proof (intro conjI impI)
  show "get_job_id rt (with_id v job) = get_job_id rt job"
    by (rule get_job_id_with_id)
next
  assume "add_id rt job = Inr job'"
  then show "get_job_id rt job' = get_job_id rt job"
    using add_id_with_id [of rt job job'] by (auto simp: get_job_id_with_id)
next
  assume "map_of kvs ''link'' = map_of kvs' ''link'' \<and> map_of kvs ''title'' = map_of kvs' ''title'' \<and>
    map_of kvs ''company'' = map_of kvs' ''company''"
  then show "get_job_id rt (PDict kvs) = get_job_id rt (PDict kvs')"
    by (intro get_job_id_agree) auto
next
  show "new_jobs_loop rt (map (\<lambda>j. with_id (f j) j) jobs) seen [] =
     (map_sum id (map (\<lambda>j. with_id (f j) j)) (fst (new_jobs_loop rt jobs seen [])),
      snd (new_jobs_loop rt jobs seen []))"
    using new_jobs_loop_with_id [of rt f jobs seen "[]"] by simp
qed

theorem dedup_ignores_id_field_witness:
  "add_id example_runtime job1 = Inr job1_with_id \<and>
   get_job_id example_runtime job1_with_id = get_job_id example_runtime job1 \<and>
   get_job_id example_runtime job1 = Inr ''111'' \<and>
   get_job_id example_runtime (with_id (PStr ''111'') job1) = Inr ''111'' \<and>
   new_jobs_loop example_runtime [with_id (PInt 7) job1, with_id (PInt 7) job2] {PStr ''111''} [] =
     (Inr [with_id (PInt 7) job2], {PStr ''111'', PStr ''222''})"
proof -
  note t = dedup_ignores_id_field [of example_runtime _ job1 job1_with_id
     "[(''link'', PStr ''a''), (''id'', PInt 1)]" "[(''link'', PStr ''a''), (''id'', PInt 2)]"
     "\<lambda>j. PInt 7" "[job1, job2]" "{PStr ''111''}"]
  have l: "new_jobs_loop example_runtime [job1, job2] {PStr ''111''} [] =
     (Inr [job2], {PStr ''111'', PStr ''222''})"
    by (simp add: example_ids insert_commute)
  have 1: "get_job_id example_runtime job1_with_id = get_job_id example_runtime job1"
    using t [of "PInt 0"] example_add_id by blast
  have 2: "get_job_id example_runtime (with_id (PStr ''111'') job1) = Inr ''111''"
    using t [of "PStr ''111''"] example_ids by simp
  have 3: "new_jobs_loop example_runtime [with_id (PInt 7) job1, with_id (PInt 7) job2]
       {PStr ''111''} [] = (Inr [with_id (PInt 7) job2], {PStr ''111'', PStr ''222''})"
    using t [of "PInt 0"] l by simp
  from 1 2 3 example_add_id example_ids show ?thesis by simp
qed

subsection \<open>Notifier and empty lists\<close>

lemma send_email_posts_nonempty:
  "Email_post js \<in> set (snd (send_email cfg post jobs)) \<Longrightarrow> js = jobs \<and> jobs \<noteq> []"
  by (auto simp: send_email_def split: if_splits http_result.splits option.splits)

lemma Email_post_not_scrape: "Email_post js \<notin> set (scrape_posts calls)"
  by (auto simp: scrape_posts_def)

lemma check_email_nonempty:
  assumes "Email_post js \<in> set (snd (snd (check_for_new_jobs cfg rt w seen)))"
  shows "js \<noteq> []"
proof -
  obtain r calls where f: "fetch_jobs cfg rt w = (r, calls)" by (cases "fetch_jobs cfg rt w")
  show ?thesis
  proof (cases r)
    case (Inl e)
    with assms f Email_post_not_scrape [of js calls] show ?thesis
      by (simp add: check_for_new_jobs_def save_seen_jobs_def)
  next
    case (Inr jobs)
    note jobs = Inr
    show ?thesis
    proof (cases "truthy jobs")
      case False
      with assms f jobs Email_post_not_scrape [of js calls] show ?thesis
        by (simp add: check_for_new_jobs_def save_seen_jobs_def Let_def)
    next
      case True
      show ?thesis
      proof (cases "py_iter jobs")
        case (Inl e)
        with assms f jobs True Email_post_not_scrape [of js calls] show ?thesis
          by (simp add: check_for_new_jobs_def save_seen_jobs_def Let_def)
      next
        case (Inr items)
        obtain nr s1 where l: "new_jobs_loop rt items seen [] = (nr, s1)"
          by (cases "new_jobs_loop rt items seen []")
        show ?thesis
        proof (cases nr)
          case (Inl e)
          with assms f jobs True Inr l Email_post_not_scrape [of js calls] show ?thesis
            by (simp add: check_for_new_jobs_def save_seen_jobs_def Let_def)
        next
          case (Inr new)
          note ch = check_after_dedup [OF f [unfolded jobs] True \<open>py_iter jobs = Inr items\<close>
                      l [unfolded Inr]]
          show ?thesis
          proof (cases "new = []")
            case True
            with assms ch Email_post_not_scrape [of js calls] show ?thesis by simp
          next
            case False
            obtain sr sent where se: "send_email cfg (resend w) new = (sr, sent)"
              by (cases "send_email cfg (resend w) new")
            with assms ch False Email_post_not_scrape [of js calls]
            have "Email_post js \<in> set sent" by (cases sr) (auto simp: save_seen_jobs_def)
            with se send_email_posts_nonempty [of js cfg "resend w" new] show ?thesis by simp
          qed
        qed
      qed
    qed
  qed
qed

text \<open>
  C7 (amended). With an empty list the notifier makes no call to the email service,
  whatever the configuration and the service. It returns without any effect when the
  email API key is set, and raises the configuration error when it is not: the key is
  tested before the list (see the counterexample). A pipeline run never posts an
  email for an empty list of records.
\<close>

theorem send_email_empty_list:
  "snd (send_email cfg post []) = [] \<and>
   (key_set (RESEND_API_KEY cfg) \<longrightarrow> send_email cfg post [] = (Inr (), [])) \<and>
   (\<not> key_set (RESEND_API_KEY cfg) \<longrightarrow> send_email cfg post [] = (Inl ValueError, [])) \<and>
   (Email_post js \<in> set (snd (snd (check_for_new_jobs cfg rt w seen))) \<longrightarrow> js \<noteq> [])"
  using check_email_nonempty [of js cfg rt w seen] by (simp add: send_email_def)

theorem send_email_empty_list_witness:
  "key_set (RESEND_API_KEY example_config) \<and>
   send_email example_config (resend example_env) [] = (Inr (), []) \<and>
   \<not> key_set (RESEND_API_KEY no_resend_config) \<and>
   send_email no_resend_config (resend example_env) [] = (Inl ValueError, []) \<and>
   Email_post [job1_with_id] \<in>
     set (snd (snd (check_for_new_jobs example_config example_runtime example_env {}))) \<and>
   [job1_with_id] \<noteq> []"
proof -
  have k: "key_set (RESEND_API_KEY example_config)"
    by (simp add: example_config_def key_set_def)
  have n: "\<not> key_set (RESEND_API_KEY no_resend_config)"
    by (simp add: no_resend_config_def key_set_def)
  have f: "fetch_jobs example_config example_runtime example_env =
     (Inr (PList [job1_with_id]), take 3 (extract_combos example_config))"
    by (simp add: example_fetch example_key)
  have se: "send_email example_config (resend example_env) [job1_with_id]
            = (Inr (), [Email_post [job1_with_id]])"
    by (simp add: send_email_def k example_env_def is_dict_def job1_with_id_def)
  have c: "Email_post [job1_with_id] \<in>
     set (snd (snd (check_for_new_jobs example_config example_runtime example_env {})))"
    by (simp add: check_for_new_jobs_def save_seen_jobs_def f py_iter_def example_dedup se
          del: new_jobs_loop.simps)
  from k n c show ?thesis
    using send_email_empty_list [of example_config "resend example_env" "[job1_with_id]"
            example_runtime example_env "{}"]
      send_email_empty_list [of no_resend_config "resend example_env" "[job1_with_id]"
            example_runtime example_env "{}"]
    by blast
qed

theorem send_email_empty_list_counterexample:
  "send_email no_resend_config (resend example_env) [] = (Inl ValueError, [])"
  by (simp add: send_email_def no_resend_config_def key_set_def)

subsection \<open>Loading the state file\<close>



subsection \<open>Links\<close>




end
